theory Spec2Isabelle
  imports Main
begin

section \<open>JavaScript values and string helpers\<close>

text \<open>
  The server (\<^verbatim>\<open>src/unnamed/part_001\<close>, an Express application) reads JSON request
  bodies and answers with a status code and a JSON body. A body field of unknown type
  is a \<open>jsvalue\<close>; \<open>JUndefined\<close> stands for an absent field. Numbers are restricted
  to integers (a parsed JSON body holds no NaN). An object is an association list in
  the order of the object literal.
\<close>

datatype jsvalue =
    JUndefined
  | JNull
  | JBool bool
  | JNum int
  | JStr string
  | JArr "jsvalue list"
  | JObj "(string \<times> jsvalue) list"

text \<open>JavaScript truthiness, as used by \<^verbatim>\<open>!x\<close>, \<^verbatim>\<open>x ? a : b\<close> and \<^verbatim>\<open>x || y\<close>.\<close>

fun truthy :: "jsvalue \<Rightarrow> bool" where
  "truthy JUndefined = False"
| "truthy JNull = False"
| "truthy (JBool b) = b"
| "truthy (JNum n) = (n \<noteq> 0)"
| "truthy (JStr s) = (s \<noteq> [])"
| "truthy (JArr xs) = True"
| "truthy (JObj kvs) = True"

text \<open>\<^verbatim>\<open>typeof v === 'string'\<close>.\<close>

fun is_string :: "jsvalue \<Rightarrow> bool" where
  "is_string (JStr s) = True"
| "is_string v = False"

text \<open>\<^verbatim>\<open>typeof v\<close>; an array and \<^verbatim>\<open>null\<close> are objects.\<close>

fun typeof :: "jsvalue \<Rightarrow> string" where
  "typeof JUndefined = ''undefined''"
| "typeof JNull = ''object''"
| "typeof (JBool b) = ''boolean''"
| "typeof (JNum n) = ''number''"
| "typeof (JStr s) = ''string''"
| "typeof (JArr xs) = ''object''"
| "typeof (JObj kvs) = ''object''"

text \<open>
  Fields whose declared type is \<^verbatim>\<open>string\<close> and that may be absent are
  \<open>string option\<close>; \<open>present\<close> is their truthiness (absent and the empty string are
  falsy).
\<close>

definition present :: "string option \<Rightarrow> bool" where
  "present v = (case v of None \<Rightarrow> False | Some s \<Rightarrow> s \<noteq> [])"

definition opt_str :: "string option \<Rightarrow> jsvalue" where
  "opt_str v = (case v of None \<Rightarrow> JUndefined | Some s \<Rightarrow> JStr s)"

definition opt_num :: "int option \<Rightarrow> jsvalue" where
  "opt_num v = (case v of None \<Rightarrow> JUndefined | Some n \<Rightarrow> JNum n)"

text \<open>\<^verbatim>\<open>s.startsWith(p)\<close>.\<close>

definition startsWith :: "string \<Rightarrow> string \<Rightarrow> bool" where
  "startsWith s p = (take (length p) s = p)"

text \<open>\<^verbatim>\<open>s.includes(p)\<close>: \<open>p\<close> occurs in \<open>s\<close> as a contiguous substring.\<close>

fun includes_str :: "string \<Rightarrow> string \<Rightarrow> bool" where
  "includes_str [] p = (p = [])"
| "includes_str (c # cs) p = (startsWith (c # cs) p \<or> includes_str cs p)"

text \<open>
  \<^verbatim>\<open>s.split(c)\<close> for a one-character separator: the pieces between the
  separators, empty pieces included; the empty string gives one empty piece.
\<close>

fun split_str :: "char \<Rightarrow> string \<Rightarrow> string list" where
  "split_str c [] = [[]]"
| "split_str c (x # xs) =
     (if x = c then [] # split_str c xs
      else (case split_str c xs of [] \<Rightarrow> [[x]] | p # ps \<Rightarrow> (x # p) # ps))"

text \<open>\<^verbatim>\<open>xs[i]\<close> of an array: \<^verbatim>\<open>undefined\<close> out of range.\<close>

definition at_index :: "'a list \<Rightarrow> nat \<Rightarrow> 'a option" where
  "at_index xs i = (if i < length xs then Some (xs ! i) else None)"

text \<open>
  \<^verbatim>\<open>s.toLowerCase()\<close> and \<^verbatim>\<open>s.trim()\<close> on the ASCII range: the letters
  \<open>A\<close> to \<open>Z\<close> are lowered, and tab, line feed, vertical tab, form feed, carriage
  return and space are the white space removed at both ends.
\<close>

definition lower_char :: "char \<Rightarrow> char" where
  "lower_char c =
     (let n = (of_char c :: nat) in if 65 \<le> n \<and> n \<le> 90 then char_of (n + 32) else c)"

definition toLowerCase :: "string \<Rightarrow> string" where
  "toLowerCase s = map lower_char s"

definition is_space :: "char \<Rightarrow> bool" where
  "is_space c = ((of_char c :: nat) \<in> {9, 10, 11, 12, 13, 32})"

definition trim :: "string \<Rightarrow> string" where
  "trim s = rev (dropWhile is_space (rev (dropWhile is_space s)))"

section \<open>Requests, responses and errors\<close>

record response =
  status :: nat
  body :: jsvalue

text \<open>\<^verbatim>\<open>res.status(n).json({ message: m })\<close>.\<close>

definition message_response :: "nat \<Rightarrow> string \<Rightarrow> response" where
  "message_response n m = \<lparr>status = n, body = JObj [(''message'', JStr m)]\<rparr>"

text \<open>
  A thrown JavaScript error: its \<^verbatim>\<open>code\<close> (set by the MongoDB driver, 11000 for a
  duplicate key) and its \<^verbatim>\<open>message\<close>.
\<close>

record js_error =
  err_code :: "nat option"
  err_message :: string

definition Error :: "string \<Rightarrow> js_error" where
  "Error m = \<lparr>err_code = None, err_message = m\<rparr>"

text \<open>
  \<^verbatim>\<open>interface AuthRequest extends Request { user?: { id: string } }\<close>: the
  Authorization header, the parsed body and the payload the middleware attaches.
\<close>

record jwt_payload =
  payload_id :: string

record 'b request =
  authorization :: "string option"
  req_body :: 'b
  user :: "jwt_payload option"

section \<open>The access-control middleware\<close>

text \<open>
  \<^verbatim>\<open>protect\<close> (part_001, lines 39 to 59). \<^verbatim>\<open>jwt.verify(token, JWT_SECRET)\<close> belongs to
  the jsonwebtoken library and is a parameter: it returns the decoded payload or throws.
  The middleware either answers the request itself or calls \<^verbatim>\<open>next()\<close> with the
  request it has updated.
\<close>

datatype 'b mw_result = Respond response | Next "'b request"

definition bearer_token :: "string option \<Rightarrow> string option" where
  "bearer_token h =
     (case h of
        None \<Rightarrow> None
      | Some a \<Rightarrow>
          if a \<noteq> [] \<and> startsWith a ''Bearer'' then at_index (split_str CHR '' '' a) 1
          else None)"

definition protect ::
  "(string \<Rightarrow> string \<Rightarrow> js_error + jwt_payload) \<Rightarrow> string \<Rightarrow> 'b request \<Rightarrow> 'b mw_result"
where
  "protect jwt_verify JWT_SECRET req =
     (case bearer_token (authorization req) of
        None \<Rightarrow> Respond (message_response 401 ''No token, authorization denied'')
      | Some token \<Rightarrow>
          if token = [] then Respond (message_response 401 ''No token, authorization denied'')
          else
            (case jwt_verify token JWT_SECRET of
               Inr decoded \<Rightarrow> Next (req\<lparr>user := Some decoded\<rparr>)
             | Inl error \<Rightarrow> Respond (message_response 401 ''Token is not valid'')))"

text \<open>
  \<^verbatim>\<open>app.get(path, protect, handler)\<close>: the handler runs on the request the middleware
  passes on, and only then. A handler reads and updates some state \<open>'s\<close>.
\<close>

definition guarded ::
  "('b request \<Rightarrow> 'b mw_result) \<Rightarrow> ('b request \<Rightarrow> 's \<Rightarrow> response \<times> 's) \<Rightarrow>
   'b request \<Rightarrow> 's \<Rightarrow> response \<times> 's"
where
  "guarded mw handler req st =
     (case mw req of
        Respond r \<Rightarrow> (r, st)
      | Next req' \<Rightarrow> handler req' st)"

section \<open>The User model\<close>

text \<open>
  The Mongoose schema of \<^verbatim>\<open>models/User\<close> (in the sources: Signup.jsx, lines 307 to
  549). A stored document is a \<open>user\<close>; \<^verbatim>\<open>_id\<close> is \<open>uid\<close>. The sub-document arrays
  are carried as JSON values, which the handlers only copy. The \<^verbatim>\<open>createdAt\<close> and
  \<^verbatim>\<open>updatedAt\<close> timestamps, which no handler reads, are left out.
\<close>

record user =
  uid :: string
  email :: string
  password :: "string option"
  firstName :: string
  lastName :: string
  age :: "int option"
  school :: "string option"
  grade :: "string option"
  profilePicture :: "string option"
  achievements :: jsvalue
  academicProgress :: jsvalue
  interests :: jsvalue
  universityApplications :: jsvalue
  applicationProgress :: jsvalue
  chatHistory :: jsvalue

text \<open>
  What the bcryptjs and jsonwebtoken libraries and the ObjectId generator return during
  one request. Their code is not part of the repository, so they are parameters:
  \<^verbatim>\<open>bcrypt.genSalt(rounds)\<close>, \<^verbatim>\<open>bcrypt.hash(secret, salt)\<close>,
  \<^verbatim>\<open>bcrypt.compare(candidate, hash)\<close>, \<^verbatim>\<open>jwt.sign({ id }, secret, { expiresIn })\<close>,
  \<^verbatim>\<open>jwt.verify(token, secret)\<close>, the \<^verbatim>\<open>_id\<close> given to a new document, and the cast
  of a string to an ObjectId that a query by \<^verbatim>\<open>_id\<close> makes (a CastError is thrown for
  a string that is no ObjectId). A call that can throw returns a sum, \<open>Inl\<close> the error
  thrown. The candidate of \<^verbatim>\<open>bcrypt.compare\<close> is whatever the login body holds as the
  password, so it is any JSON value.
\<close>

record lib =
  bcrypt_genSalt :: "nat \<Rightarrow> string"
  bcrypt_hash :: "string \<Rightarrow> string \<Rightarrow> js_error + string"
  bcrypt_compare :: "jsvalue \<Rightarrow> string \<Rightarrow> js_error + bool"
  jwt_sign :: "string \<Rightarrow> string \<Rightarrow> string \<Rightarrow> string"
  jwt_verify :: "string \<Rightarrow> string \<Rightarrow> js_error + jwt_payload"
  new_ObjectId :: string
  castObjectId :: "string \<Rightarrow> js_error + string"

subsection \<open>Setters and defaults\<close>

text \<open>
  \<^verbatim>\<open>email: { lowercase: true, trim: true }\<close>: the setters Mongoose applies, in this
  order, to a value assigned to the path and to a value the path is queried by.
\<close>

definition email_setters :: "string \<Rightarrow> string" where
  "email_setters e = trim (toLowerCase e)"

text \<open>
  \<^verbatim>\<open>new User({ email, password, firstName, lastName, age, school, grade })\<close>: the
  setters of each path are applied and the schema's defaults fill the other paths.
\<close>

definition new_User ::
  "string \<Rightarrow> string \<Rightarrow> string \<Rightarrow> string \<Rightarrow> string \<Rightarrow> int option \<Rightarrow> string option \<Rightarrow>
   string option \<Rightarrow> user"
where
  "new_User oid e p f l a sc g =
     \<lparr>uid = oid,
      email = email_setters e,
      password = Some p,
      firstName = trim f,
      lastName = trim l,
      age = a,
      school = map_option trim sc,
      grade = map_option trim g,
      profilePicture = None,
      achievements = JArr [],
      academicProgress = JArr [],
      interests = JArr [],
      universityApplications = JArr [],
      applicationProgress = JObj [(''averageCompletion'', JNum 0)],
      chatHistory = JArr []\<rparr>"

subsection \<open>Validation\<close>

text \<open>
  \<^verbatim>\<open>match: [/.+@.+\..+/, ...]\<close>: the regular expression is not anchored, and its
  \<^verbatim>\<open>.\<close> is any character but a line terminator. \<open>after_at\<close> matches
  \<^verbatim>\<open>.+\..+\<close> at the start of a string, \<open>email_match\<close> the whole expression anywhere.
\<close>

definition dot_char :: "char \<Rightarrow> bool" where
  "dot_char c = ((of_char c :: nat) \<notin> {10, 13})"

definition dot_then :: "string \<Rightarrow> bool" where
  "dot_then cs = (case cs of d # e # r \<Rightarrow> d = CHR ''.'' \<and> dot_char e | _ \<Rightarrow> False)"

fun after_at :: "string \<Rightarrow> bool" where
  "after_at [] = False"
| "after_at (c # cs) = (dot_char c \<and> (dot_then cs \<or> after_at cs))"

fun email_match :: "string \<Rightarrow> bool" where
  "email_match [] = False"
| "email_match (c # cs) =
     ((dot_char c \<and> (case cs of [] \<Rightarrow> False | a # r \<Rightarrow> a = CHR ''@'' \<and> after_at r))
      \<or> email_match cs)"

text \<open>
  The validators of the schema, path by path, each giving the failures (path, message)
  of its path: \<^verbatim>\<open>required\<close> fails on an absent or empty string, and the next
  validator of a path runs only when the one before it passed.
\<close>

definition validate_email :: "user \<Rightarrow> (string \<times> string) list" where
  "validate_email u =
     (if email u = [] then [(''email'', ''Email is required'')]
      else if \<not> email_match (email u) then [(''email'', ''Please enter a valid email address'')]
      else [])"

definition validate_password :: "user \<Rightarrow> (string \<times> string) list" where
  "validate_password u =
     (case password u of
        None \<Rightarrow> [(''password'', ''Password is required'')]
      | Some p \<Rightarrow>
          if p = [] then [(''password'', ''Password is required'')]
          else if length p < 6 then
            [(''password'', ''Password must be at least 6 characters long'')]
          else [])"

definition validate_names :: "user \<Rightarrow> (string \<times> string) list" where
  "validate_names u =
     (if firstName u = [] then [(''firstName'', ''First name is required'')] else []) @
     (if lastName u = [] then [(''lastName'', ''Last name is required'')] else [])"

definition validate_age :: "user \<Rightarrow> (string \<times> string) list" where
  "validate_age u =
     (case age u of
        None \<Rightarrow> []
      | Some a \<Rightarrow>
          if a < 13 then [(''age'', ''Must be at least 13 years old'')]
          else if 100 < a then [(''age'', ''Invalid age'')]
          else [])"

definition validate :: "user \<Rightarrow> (string \<times> string) list" where
  "validate u = validate_email u @ validate_password u @ validate_names u @ validate_age u"

text \<open>The message of the ValidationError Mongoose throws for a list of failures.\<close>

fun join_failures :: "(string \<times> string) list \<Rightarrow> string" where
  "join_failures [] = []"
| "join_failures [(path, msg)] = path @ '': '' @ msg"
| "join_failures ((path, msg) # fs) = path @ '': '' @ msg @ '', '' @ join_failures fs"

definition ValidationError :: "(string \<times> string) list \<Rightarrow> js_error" where
  "ValidationError fs = Error (''User validation failed: '' @ join_failures fs)"

subsection \<open>The pre-save hook and comparePassword\<close>

text \<open>
  \<^verbatim>\<open>UserSchema.pre('save', ...)\<close> (Signup.jsx, lines 523 to 537); \<open>modified\<close> is
  \<^verbatim>\<open>this.isModified('password')\<close>. An error of \<^verbatim>\<open>bcrypt.hash\<close> is passed to
  \<^verbatim>\<open>next\<close> and fails the save.
\<close>

definition pre_save :: "lib \<Rightarrow> bool \<Rightarrow> user \<Rightarrow> js_error + user" where
  "pre_save L modified u =
     (if \<not> modified then Inr u
      else
        (let salt = bcrypt_genSalt L 10 in
         case password u of
           None \<Rightarrow> Inr u
         | Some p \<Rightarrow>
             if p = [] then Inr u
             else
               (case bcrypt_hash L p salt of
                  Inl error \<Rightarrow> Inl error
                | Inr hashed \<Rightarrow> Inr (u\<lparr>password := Some hashed\<rparr>))))"

text \<open>\<^verbatim>\<open>UserSchema.methods.comparePassword\<close> (Signup.jsx, lines 540 to 545).\<close>

definition comparePassword :: "lib \<Rightarrow> user \<Rightarrow> jsvalue \<Rightarrow> js_error + bool" where
  "comparePassword L u candidatePassword =
     (case password u of
        None \<Rightarrow> Inr False
      | Some p \<Rightarrow> if p = [] then Inr False else bcrypt_compare L candidatePassword p)"

subsection \<open>The collection\<close>

text \<open>
  The collection is the list of its documents in insertion order. The unique indexes
  (\<^verbatim>\<open>_id\<close>, and \<^verbatim>\<open>email: { unique: true }\<close>) make an insert fail with the driver's
  duplicate-key error, code 11000. The database itself is taken to be up: a query or an
  insert has no other way to fail than the ones written out here.
\<close>

definition duplicate_key :: js_error where
  "duplicate_key = \<lparr>err_code = Some 11000, err_message = ''E11000 duplicate key error''\<rparr>"

definition insert_doc :: "user list \<Rightarrow> user \<Rightarrow> js_error + user list" where
  "insert_doc s u =
     (if list_ex (\<lambda>v. email v = email u \<or> uid v = uid u) s then Inl duplicate_key
      else Inr (s @ [u]))"

text \<open>
  \<^verbatim>\<open>user.save()\<close> of a new document: validation is the first pre-save hook, then the
  schema's own hook, then the insert. The result is the document as saved and the
  collection after the insert.
\<close>

definition save :: "lib \<Rightarrow> user list \<Rightarrow> user \<Rightarrow> js_error + (user \<times> user list)" where
  "save L s u =
     (case validate u of
        f # fs \<Rightarrow> Inl (ValidationError (f # fs))
      | [] \<Rightarrow>
          (case pre_save L (password u \<noteq> None) u of
             Inl error \<Rightarrow> Inl error
           | Inr u' \<Rightarrow>
               (case insert_doc s u' of
                  Inl error \<Rightarrow> Inl error
                | Inr s' \<Rightarrow> Inr (u', s'))))"

text \<open>
  Queries. \<^verbatim>\<open>password\<close> and \<^verbatim>\<open>chatHistory\<close> are \<^verbatim>\<open>select: false\<close>: a query
  result leaves them out unless they are selected, as
  \<^verbatim>\<open>.select('+password')\<close> does for the password. The email a query filters by goes
  through the setters of the path.
\<close>

definition unselect :: "bool \<Rightarrow> user \<Rightarrow> user" where
  "unselect with_password u =
     (if with_password then u\<lparr>chatHistory := JUndefined\<rparr>
      else u\<lparr>password := None, chatHistory := JUndefined\<rparr>)"

definition findOne :: "user list \<Rightarrow> string \<Rightarrow> bool \<Rightarrow> user option" where
  "findOne s e with_password =
     map_option (unselect with_password) (find (\<lambda>u. email u = email_setters e) s)"

text \<open>
  \<^verbatim>\<open>User.findById(id)\<close>: an absent id finds nothing; a string is cast to an ObjectId
  first, and the CastError of a string that is none is thrown.
\<close>

definition findById :: "lib \<Rightarrow> user list \<Rightarrow> string option \<Rightarrow> js_error + user option" where
  "findById L s i =
     (case i of
        None \<Rightarrow> Inr None
      | Some x \<Rightarrow>
          (case castObjectId L x of
             Inl error \<Rightarrow> Inl error
           | Inr oid \<Rightarrow> Inr (map_option (unselect False) (find (\<lambda>u. uid u = oid) s))))"

section \<open>The authentication routes\<close>

text \<open>
  The body of a signup request, as the handler destructures it. The string fields are
  the strings the schema declares, or absent; \<^verbatim>\<open>age\<close> is the number the signup form
  sends, or absent. Fields of another JSON type, which Mongoose would cast or refuse
  when the document is built, are outside the model of signup.
\<close>

record auth_body =
  req_email :: "string option"
  req_password :: "string option"
  req_firstName :: "string option"
  req_lastName :: "string option"
  req_age :: "int option"
  req_school :: "string option"
  req_grade :: "string option"

text \<open>The string of a field that is present.\<close>

definition str_val :: "string option \<Rightarrow> string" where
  "str_val v = (case v of None \<Rightarrow> [] | Some s \<Rightarrow> s)"

text \<open>\<^verbatim>\<open>age ? parseInt(age) : undefined\<close>, for an integer below \<open>10\<^sup>2\<^sup>1\<close>.\<close>

definition parse_age :: "int option \<Rightarrow> int option" where
  "parse_age a = (case a of None \<Rightarrow> None | Some n \<Rightarrow> if n \<noteq> 0 then Some n else None)"

text \<open>The \<^verbatim>\<open>user\<close> object of the signup response (part_001, lines 102 to 110).\<close>

definition signup_view :: "user \<Rightarrow> jsvalue" where
  "signup_view u =
     JObj [(''id'', JStr (uid u)),
           (''email'', JStr (email u)),
           (''firstName'', JStr (firstName u)),
           (''lastName'', JStr (lastName u)),
           (''age'', opt_num (age u)),
           (''school'', opt_str (school u)),
           (''grade'', opt_str (grade u))]"

text \<open>
  The fields of the \<^verbatim>\<open>user\<close> object of the login response (lines 154 to 167), which
  are also the fields of the profile response (lines 186 to 199).
\<close>

definition profile_fields :: "user \<Rightarrow> (string \<times> jsvalue) list" where
  "profile_fields u =
     [(''id'', JStr (uid u)),
      (''email'', JStr (email u)),
      (''firstName'', JStr (firstName u)),
      (''lastName'', JStr (lastName u)),
      (''age'', opt_num (age u)),
      (''school'', opt_str (school u)),
      (''grade'', opt_str (grade u)),
      (''interests'', interests u),
      (''achievements'', achievements u),
      (''academicProgress'', academicProgress u),
      (''universityApplications'', universityApplications u),
      (''applicationProgress'', applicationProgress u)]"

definition server_error :: "string \<Rightarrow> js_error \<Rightarrow> response" where
  "server_error m error =
     \<lparr>status = 500, body = JObj [(''message'', JStr m), (''error'', JStr (err_message error))]\<rparr>"

text \<open>\<^verbatim>\<open>POST /api/auth/signup\<close> (part_001, lines 66 to 121).\<close>

definition signup :: "lib \<Rightarrow> string \<Rightarrow> auth_body request \<Rightarrow> user list \<Rightarrow> response \<times> user list" where
  "signup L JWT_SECRET req s =
     (let b = req_body req in
      if \<not> present (req_email b) \<or> \<not> present (req_password b) \<or>
         \<not> present (req_firstName b) \<or> \<not> present (req_lastName b)
      then (message_response 400 ''Please enter all required fields'', s)
      else
        (case findOne s (str_val (req_email b)) False of
           Some existing \<Rightarrow> (message_response 400 ''User with this email already exists'', s)
         | None \<Rightarrow>
             (let u = new_User (new_ObjectId L) (str_val (req_email b)) (str_val (req_password b))
                        (str_val (req_firstName b)) (str_val (req_lastName b))
                        (parse_age (req_age b)) (req_school b) (req_grade b)
              in case save L s u of
                   Inl error \<Rightarrow>
                     (if err_code error = Some 11000
                      then message_response 400 ''Email already registered''
                      else server_error ''Server error during signup'' error, s)
                 | Inr (u', s') \<Rightarrow>
                     (\<lparr>status = 201,
                       body = JObj [(''message'', JStr ''User registered successfully''),
                                    (''token'', JStr (jwt_sign L (uid u') JWT_SECRET ''1h'')),
                                    (''user'', signup_view u')]\<rparr>, s'))))"

text \<open>
  The body of a login request. The handler tests the password for truthiness only and
  hands it to \<^verbatim>\<open>comparePassword\<close> as it is, so the password is any JSON value; the
  email is a string or absent.
\<close>

record login_body =
  login_email :: "string option"
  login_password :: jsvalue

text \<open>\<^verbatim>\<open>POST /api/auth/login\<close> (part_001, lines 126 to 174).\<close>

definition login :: "lib \<Rightarrow> string \<Rightarrow> login_body request \<Rightarrow> user list \<Rightarrow> response \<times> user list" where
  "login L JWT_SECRET req s =
     (let b = req_body req in
      if \<not> present (login_email b) \<or> \<not> truthy (login_password b)
      then (message_response 400 ''Please enter all fields'', s)
      else
        (case findOne s (str_val (login_email b)) True of
           None \<Rightarrow> (message_response 400 ''Invalid credentials'', s)
         | Some u \<Rightarrow>
             (case comparePassword L u (login_password b) of
                Inl error \<Rightarrow> (server_error ''Server error during login'' error, s)
              | Inr isMatch \<Rightarrow>
                  if \<not> isMatch then (message_response 400 ''Invalid credentials'', s)
                  else
                    (\<lparr>status = 200,
                      body = JObj [(''message'', JStr ''Logged in successfully''),
                                   (''token'', JStr (jwt_sign L (uid u) JWT_SECRET ''1h'')),
                                   (''user'', JObj (profile_fields u))]\<rparr>, s))))"

section \<open>The protected routes\<close>

text \<open>
  \<^verbatim>\<open>GET /api/user/profile\<close> (part_001, lines 179 to 204): the handler behind
  \<^verbatim>\<open>protect\<close>, and the route. \<^verbatim>\<open>req.user?.id\<close> of a request with no user is
  \<^verbatim>\<open>undefined\<close>.
\<close>

definition profile_handler :: "lib \<Rightarrow> 'b request \<Rightarrow> user list \<Rightarrow> response \<times> user list" where
  "profile_handler L req s =
     (case findById L s (map_option payload_id (user req)) of
        Inl error \<Rightarrow> (server_error ''Server error while fetching profile'' error, s)
      | Inr None \<Rightarrow> (message_response 404 ''User not found'', s)
      | Inr (Some u) \<Rightarrow> (\<lparr>status = 200, body = JObj (profile_fields u)\<rparr>, s))"

definition profile :: "lib \<Rightarrow> string \<Rightarrow> 'b request \<Rightarrow> user list \<Rightarrow> response \<times> user list" where
  "profile L JWT_SECRET = guarded (protect (jwt_verify L) JWT_SECRET) (profile_handler L)"

text \<open>
  \<^verbatim>\<open>GET /api/protected\<close> (lines 207 to 212); the template string prints a missing id
  as \<^verbatim>\<open>undefined\<close>.
\<close>

definition protected_route :: "lib \<Rightarrow> string \<Rightarrow> 'b request \<Rightarrow> 's \<Rightarrow> response \<times> 's" where
  "protected_route L JWT_SECRET =
     guarded (protect (jwt_verify L) JWT_SECRET)
       (\<lambda>req st.
          (\<lparr>status = 200,
            body = JObj [(''message'',
                          JStr (''Welcome to the protected route, user '' @
                                (case user req of None \<Rightarrow> ''undefined'' | Some d \<Rightarrow> payload_id d) @
                                ''!'')),
                         (''userId'',
                          (case user req of None \<Rightarrow> JUndefined | Some d \<Rightarrow> JStr (payload_id d)))]\<rparr>,
           st))"

text \<open>\<^verbatim>\<open>POST /api/auth/logout\<close> (lines 217 to 226): no token is revoked.\<close>

definition logout :: "lib \<Rightarrow> string \<Rightarrow> 'b request \<Rightarrow> 's \<Rightarrow> response \<times> 's" where
  "logout L JWT_SECRET =
     guarded (protect (jwt_verify L) JWT_SECRET)
       (\<lambda>req st. (message_response 200 ''Logged out successfully'', st))"

section \<open>The chat route and the inference service\<close>

text \<open>
  \<^verbatim>\<open>services/aiService\<close> (in the sources: part_001, lines 289 to 381). The HTTP call
  to the Ollama endpoint is a parameter \<open>fetch\<close>, from the prompt sent to what comes
  back: the call throws, or answers with a status that is not ok (the \<^verbatim>\<open>error\<close> field
  of its JSON body and its status text), or answers ok (the \<^verbatim>\<open>response\<close> field of its
  JSON body). The state of the route is the list of the prompts sent so far.
\<close>

datatype fetch_result =
    Fetch_Failed js_error
  | Http_Error "string option" string
  | Http_Ok "string option"

fun join_lines :: "string list \<Rightarrow> string" where
  "join_lines [] = []"
| "join_lines [l] = l"
| "join_lines (l # ls) = l @ [CHR 0x0A] @ join_lines ls"

definition SYSTEM_PROMPT :: string where
  \<open>SYSTEM_PROMPT = join_lines
     [''You are a career and education advisor AI assistant. Your role is to:'',
      ''1. Provide guidance on career paths and educational choices'',
      ''2. Help with university applications and requirements'',
      ''3. Give advice on academic performance and improvement'',
      ''4. Suggest relevant courses and programs'',
      ''5. Help with study strategies and time management'',
      ''6. Provide information about different career fields and their requirements'',
      [],
      ''You should NOT:'',
      ''1. Answer questions unrelated to education or career'',
      ''2. Provide medical, legal, or financial advice'',
      ''3. Make decisions for the user'',
      ''4. Share personal opinions or biases'',
      [],
      ''If asked about topics outside education and career, respond with:'',
      ''"I can only help with career and education-related questions. Please ask me about your academic goals, career choices, or educational planning."'',
      [],
      ''Always maintain a professional, supportive tone and focus on providing factual, helpful information.'']\<close>

definition build_prompt :: "string \<Rightarrow> string" where
  "build_prompt message =
     join_lines [''<s>[INST] <<SYS>>'', SYSTEM_PROMPT, ''<</SYS>>'', [], message @ '' [/INST]'']"

text \<open>
  \<^verbatim>\<open>s.replace(/p/g, '')\<close> for a pattern that is one of a few literal strings: scanning
  from the left, an occurrence is dropped and the scan goes on behind it. \<open>k\<close> counts
  the characters of an occurrence still to drop.
\<close>

fun remove_all :: "string list \<Rightarrow> nat \<Rightarrow> string \<Rightarrow> string" where
  "remove_all ps k [] = []"
| "remove_all ps k (c # cs) =
     (if 0 < k then remove_all ps (k - 1) cs
      else
        (case find (startsWith (c # cs)) ps of
           Some p \<Rightarrow> remove_all ps (length p - 1) cs
         | None \<Rightarrow> c # remove_all ps 0 cs))"

definition clean_response :: "string \<Rightarrow> string" where
  "clean_response r =
     trim (remove_all [''[/INST]''] 0 (remove_all [''[INST]''] 0 (remove_all [''</s>'', ''<s>''] 0 r)))"

text \<open>The \<^verbatim>\<open>catch\<close> block of \<^verbatim>\<open>getAIResponse\<close>: what it throws for the error caught.\<close>

definition rethrow :: "js_error \<Rightarrow> js_error" where
  "rethrow error =
     (if includes_str (err_message error) ''ECONNREFUSED'' \<or>
         includes_str (err_message error) ''Failed to fetch''
      then Error ''Unable to connect to Ollama service. Please make sure Ollama is running locally.''
      else Error (''AI service error: '' @ err_message error))"

definition getAIResponse ::
  "(string \<Rightarrow> fetch_result) \<Rightarrow> string \<Rightarrow> string list \<Rightarrow> (js_error + string) \<times> string list"
where
  "getAIResponse fetch message sent =
     (if message = [] then (Inl (rethrow (Error ''Invalid message format'')), sent)
      else
        (let prompt = build_prompt message; sent' = sent @ [prompt] in
         case fetch prompt of
           Fetch_Failed error \<Rightarrow> (Inl (rethrow error), sent')
         | Http_Error error statusText \<Rightarrow>
             (Inl (rethrow (Error (''Ollama API error: '' @
                     (if present error then str_val error else statusText)))), sent')
         | Http_Ok r \<Rightarrow>
             if \<not> present r then
               (Inl (rethrow (Error ''No response content received from Ollama'')), sent')
             else (Inr (clean_response (str_val r)), sent')))"

text \<open>
  \<^verbatim>\<open>POST /api/ai/chat\<close> (part_001, lines 231 to 283): the handler behind
  \<^verbatim>\<open>protect\<close>, and the route. The body's \<^verbatim>\<open>message\<close> is any JSON value.
\<close>

record chat_body =
  message :: jsvalue

definition chat_error_status :: "js_error \<Rightarrow> nat" where
  "chat_error_status error =
     (if includes_str (err_message error) ''Invalid API key'' then 503
      else if includes_str (err_message error) ''Rate limit'' then 429
      else if includes_str (err_message error) ''Unable to connect'' then 503
      else 500)"

definition chat_error_response :: "js_error \<Rightarrow> response" where
  "chat_error_response error =
     \<lparr>status = chat_error_status error,
      body = JObj [(''message'', JStr (if err_message error \<noteq> [] then err_message error
                                        else ''Failed to get AI response'')),
                   (''error'', JStr (if err_message error \<noteq> [] then err_message error
                                      else ''UNKNOWN_ERROR''))]\<rparr>"

definition missing_message :: response where
  "missing_message =
     \<lparr>status = 400, body = JObj [(''message'', JStr ''Message is required''),
                                  (''error'', JStr ''MISSING_MESSAGE'')]\<rparr>"

definition invalid_message_format :: response where
  "invalid_message_format =
     \<lparr>status = 400, body = JObj [(''message'', JStr ''Message must be a string''),
                                  (''error'', JStr ''INVALID_MESSAGE_FORMAT'')]\<rparr>"

definition chat_handler ::
  "(string \<Rightarrow> fetch_result) \<Rightarrow> chat_body request \<Rightarrow> string list \<Rightarrow> response \<times> string list"
where
  "chat_handler fetch req sent =
     (let v = message (req_body req) in
      if \<not> truthy v then (missing_message, sent)
      else if \<not> is_string v then (invalid_message_format, sent)
      else
        (case v of
           JStr m \<Rightarrow>
             (case getAIResponse fetch m sent of
                (Inr response, sent') \<Rightarrow>
                  (\<lparr>status = 200, body = JObj [(''response'', JStr response)]\<rparr>, sent')
              | (Inl error, sent') \<Rightarrow> (chat_error_response error, sent'))
         | _ \<Rightarrow> (invalid_message_format, sent)))"

definition chat ::
  "lib \<Rightarrow> string \<Rightarrow> (string \<Rightarrow> fetch_result) \<Rightarrow> chat_body request \<Rightarrow> string list \<Rightarrow>
   response \<times> string list"
where
  "chat L secret fetch = guarded (protect (jwt_verify L) secret) (chat_handler fetch)"

section \<open>Startup\<close>

text \<open>
  The top of the server file (part_001, lines 10 to 32): \<open>env\<close> is
  \<^verbatim>\<open>process.env\<close> after \<^verbatim>\<open>dotenv.config()\<close>, \<open>connected\<close> tells whether
  \<^verbatim>\<open>mongoose.connect\<close> succeeds. The process exits with a code or serves with the
  configuration it has read.
\<close>

record config =
  PORT :: jsvalue
  JWT_SECRET :: string
  mongoURI :: string

datatype startup_result = Exit nat | Serving config

definition startup :: "(string \<Rightarrow> string option) \<Rightarrow> bool \<Rightarrow> startup_result" where
  "startup env connected =
     (let port = (if present (env ''PORT'') then JStr (str_val (env ''PORT'')) else JNum 5000);
          secret = (if present (env ''JWT_SECRET'') then str_val (env ''JWT_SECRET'')
                    else ''supersecretjwtkey'')
      in if \<not> present (env ''MONGO_URI'') then Exit 1
         else if \<not> connected then Exit 1
         else Serving \<lparr>PORT = port, JWT_SECRET = secret, mongoURI = str_val (env ''MONGO_URI'')\<rparr>)"

section \<open>Reading responses and stores\<close>

text \<open>The keys of a JSON object and the value under a key (\<^verbatim>\<open>undefined\<close> if there is none).\<close>

definition object_keys :: "jsvalue \<Rightarrow> string list" where
  "object_keys v = (case v of JObj kvs \<Rightarrow> map fst kvs | _ \<Rightarrow> [])"

definition is_object :: "jsvalue \<Rightarrow> bool" where
  "is_object v = (case v of JObj kvs \<Rightarrow> True | _ \<Rightarrow> False)"

definition field :: "jsvalue \<Rightarrow> string \<Rightarrow> jsvalue" where
  "field v k =
     (case v of
        JObj kvs \<Rightarrow> (case map_of kvs k of None \<Rightarrow> JUndefined | Some x \<Rightarrow> x)
      | _ \<Rightarrow> JUndefined)"

text \<open>
  An email is taken when, compared without regard to case, it is the email of a stored
  account. The emails of a collection are normalised when each is as the setters of the
  path leave it, which is how \<open>new_User\<close> builds every document that is inserted.
\<close>

definition email_taken :: "user list \<Rightarrow> string \<Rightarrow> bool" where
  "email_taken s e = list_ex (\<lambda>u. toLowerCase (email u) = toLowerCase e) s"

definition normalised :: "user list \<Rightarrow> bool" where
  "normalised s = list_all (\<lambda>u. email u = email_setters (email u)) s"

text \<open>The four fields the signup handler requires.\<close>

definition required_fields :: "auth_body \<Rightarrow> bool" where
  "required_fields b =
     (present (req_email b) \<and> present (req_password b) \<and>
      present (req_firstName b) \<and> present (req_lastName b))"

section \<open>The token issuer and verifier\<close>

text \<open>
  Modelled from the spec: the Token Issuer/Verifier of section 4.3. The server takes it
  from the jsonwebtoken library (\<^verbatim>\<open>jwt.sign\<close>, \<^verbatim>\<open>jwt.verify\<close>), whose code is not in
  the sources. A token encodes the account id, the instant it was issued and the instant
  it expires, and is signed with the process-wide secret; the expiry is fixed at
  issuance, one hour from the issue time (\<^verbatim>\<open>expiresIn: '1h'\<close> at both call sites of
  \<^verbatim>\<open>jwt.sign\<close>). A claim is valid only before its expiry and only if its signature
  matches the signing secret. Instants are in seconds; the signing function
  \<open>mac\<close> is a parameter.
\<close>

record claim =
  accountId :: string
  issuedAt :: int
  expiresAt :: int

record token =
  claims :: claim
  signature :: string

datatype presented = NoToken | Garbled string | Wellformed token

datatype verify_failure = Missing | Malformed | Expired | SignatureInvalid

definition one_hour :: int where
  "one_hour = 60 * 60"

text \<open>
  Modelled from the spec: \<^verbatim>\<open>issue(accountId) -> token\<close> encodes the account id, the
  issue time and the expiry, one hour later, and signs them with the secret.
\<close>

definition issue :: "(string \<Rightarrow> claim \<Rightarrow> string) \<Rightarrow> string \<Rightarrow> int \<Rightarrow> string \<Rightarrow> token" where
  "issue mac secret now a =
     (let c = \<lparr>accountId = a, issuedAt = now, expiresAt = now + one_hour\<rparr>
      in \<lparr>claims = c, signature = mac secret c\<rparr>)"

text \<open>
  Modelled from the spec: \<^verbatim>\<open>verify(token) -> accountId\<close>, failing with
  \<^verbatim>\<open>Missing\<close>, \<^verbatim>\<open>Malformed\<close>, \<^verbatim>\<open>SignatureInvalid\<close> or \<^verbatim>\<open>Expired\<close>; a token is
  valid only before its expiry. What is presented is no token, a string that is not a
  token, or a token.
\<close>

definition verify ::
  "(string \<Rightarrow> claim \<Rightarrow> string) \<Rightarrow> string \<Rightarrow> int \<Rightarrow> presented \<Rightarrow> verify_failure + string"
where
  "verify mac secret now p =
     (case p of
        NoToken \<Rightarrow> Inl Missing
      | Garbled g \<Rightarrow> Inl Malformed
      | Wellformed t \<Rightarrow>
          if signature t \<noteq> mac secret (claims t) then Inl SignatureInvalid
          else if expiresAt (claims t) \<le> now then Inl Expired
          else Inr (accountId (claims t)))"

section \<open>Sample inputs\<close>

text \<open>
  A stand-in library, a stored account and some requests, on which the theorems below
  are evaluated. The stand-in hash prefixes the salt to the reversed secret and the
  stand-in token is the account id behind a tag; they are not the real functions. As
  bcryptjs does, the stand-in comparison refuses a candidate that is not a string, with
  the error \<^verbatim>\<open>Illegal arguments\<close> and the two types; as Mongoose does, the stand-in
  cast takes the strings of 24 hexadecimal digits for ObjectIds.
\<close>

definition is_hex :: "char \<Rightarrow> bool" where
  "is_hex c = (c \<in> set ''0123456789abcdefABCDEF'')"

definition sample_lib :: lib where
  "sample_lib =
     \<lparr>bcrypt_genSalt = (\<lambda>rounds. ''salt''),
      bcrypt_hash = (\<lambda>p salt. Inr (salt @ ''$'' @ rev p)),
      bcrypt_compare =
        (\<lambda>p h. case p of
                 JStr c \<Rightarrow> Inr (h = ''salt$'' @ rev c)
               | _ \<Rightarrow> Inl (Error (''Illegal arguments: '' @ typeof p @ '', string''))),
      jwt_sign = (\<lambda>i secret expiresIn. ''tok:'' @ i),
      jwt_verify = (\<lambda>t secret. if take 4 t = ''tok:'' then Inr \<lparr>payload_id = drop 4 t\<rparr>
                                  else Inl (Error ''jwt malformed'')),
      new_ObjectId = ''64a1f0c2b3d4e5f601234562'',
      castObjectId =
        (\<lambda>i. if length i = 24 \<and> list_all is_hex i then Inr (toLowerCase i)
             else Inl (Error (''Cast to ObjectId failed for value '' @ i)))\<rparr>"

definition ann :: user where
  "ann =
     \<lparr>uid = ''64a1f0c2b3d4e5f601234561'', email = ''ann@x.com'', password = Some ''salt$1terces'',
      firstName = ''Ann'', lastName = ''Lee'', age = Some 17, school = None, grade = None,
      profilePicture = None, achievements = JArr [], academicProgress = JArr [],
      interests = JArr [], universityApplications = JArr [],
      applicationProgress = JObj [(''averageCompletion'', JNum 0)], chatHistory = JArr []\<rparr>"

definition bob :: user where
  "bob =
     \<lparr>uid = ''64a1f0c2b3d4e5f601234562'', email = ''bob@x.com'', password = Some ''salt$1terces'',
      firstName = ''Bob'', lastName = ''Ray'', age = None, school = None, grade = None,
      profilePicture = None, achievements = JArr [], academicProgress = JArr [],
      interests = JArr [], universityApplications = JArr [],
      applicationProgress = JObj [(''averageCompletion'', JNum 0)], chatHistory = JArr []\<rparr>"

definition auth_request ::
  "string option \<Rightarrow> string option \<Rightarrow> string option \<Rightarrow> string option \<Rightarrow> auth_body request"
where
  "auth_request e p f l =
     \<lparr>authorization = None,
      req_body = \<lparr>req_email = e, req_password = p, req_firstName = f, req_lastName = l,
                  req_age = None, req_school = None, req_grade = None\<rparr>,
      user = None\<rparr>"

definition login_request :: "string option \<Rightarrow> jsvalue \<Rightarrow> login_body request" where
  "login_request e p =
     \<lparr>authorization = None, req_body = \<lparr>login_email = e, login_password = p\<rparr>, user = None\<rparr>"

definition bearer_request :: "string option \<Rightarrow> 'b \<Rightarrow> 'b request" where
  "bearer_request h b = \<lparr>authorization = h, req_body = b, user = None\<rparr>"

definition counting_handler :: "'b request \<Rightarrow> nat \<Rightarrow> response \<times> nat" where
  "counting_handler req n = (message_response 200 ''ok'', Suc n)"

definition sample_fetch :: "string \<Rightarrow> fetch_result" where
  "sample_fetch prompt = Http_Ok (Some ''<s>Study hard.</s>'')"

definition sample_env :: "string \<Rightarrow> string option" where
  "sample_env name = (if name = ''MONGO_URI'' then Some ''mongodb://localhost/astra'' else None)"

definition sample_mac :: "string \<Rightarrow> claim \<Rightarrow> string" where
  "sample_mac secret c = secret @ '':'' @ accountId c"

definition empty_env :: "string \<Rightarrow> string option" where
  "empty_env name = None"

definition full_env :: "string \<Rightarrow> string option" where
  "full_env name =
     (if name = ''MONGO_URI'' then Some ''mongodb://localhost/astra''
      else if name = ''JWT_SECRET'' then Some ''s3cret''
      else None)"

section \<open>The middleware gates every protected route\<close>

text \<open>
  A header of the form \<^verbatim>\<open>Bearer <token>\<close>, the token without spaces, gives the
  token; a header of another scheme gives none.
\<close>

lemma split_str_no_separator: "c \<notin> set xs \<Longrightarrow> split_str c xs = [xs]"
  by (induction xs) auto

lemma split_str_first:
  "c \<notin> set xs \<Longrightarrow> split_str c (xs @ c # ys) = xs # split_str c ys"
  by (induction xs) auto

lemma bearer_token_wellformed:
  assumes "CHR '' '' \<notin> set t"
  shows "bearer_token (Some (''Bearer '' @ t)) = Some t"
proof -
  have "split_str CHR '' '' (''Bearer'' @ CHR '' '' # t) = ''Bearer'' # split_str CHR '' '' t"
    by (rule split_str_first) simp
  with assms have "split_str CHR '' '' (''Bearer '' @ t) = [''Bearer'', t]"
    by (simp add: split_str_no_separator)
  then show ?thesis
    by (simp add: bearer_token_def startsWith_def at_index_def)
qed

lemma bearer_token_other_scheme:
  "\<not> startsWith a ''Bearer'' \<Longrightarrow> bearer_token (Some a) = None"
  by (simp add: bearer_token_def)

lemma protect_no_token:
  "bearer_token (authorization req) = None \<or> bearer_token (authorization req) = Some [] \<Longrightarrow>
   protect V k req = Respond (message_response 401 ''No token, authorization denied'')"
  by (auto simp: protect_def)

lemma protect_invalid:
  "bearer_token (authorization req) = Some t \<Longrightarrow> t \<noteq> [] \<Longrightarrow> V t k = Inl e \<Longrightarrow>
   protect V k req = Respond (message_response 401 ''Token is not valid'')"
  by (simp add: protect_def)

lemma protect_valid:
  "bearer_token (authorization req) = Some t \<Longrightarrow> t \<noteq> [] \<Longrightarrow> V t k = Inr d \<Longrightarrow>
   protect V k req = Next (req\<lparr>user := Some d\<rparr>)"
  by (simp add: protect_def)

lemma bearer_token_absent: "bearer_token None = None"
  by (simp add: bearer_token_def)

text \<open>
  C4. For every request to a protected route: if the Authorization header is absent, or
  no bearer token can be read from it, or the token fails verification with whatever
  error, the route answers 401 and leaves the state as it was, whatever the handler
  \<open>h\<close> is, so the handler has not run; if verification succeeds, the decoded payload
  (the account id) is attached to the request as \<^verbatim>\<open>req.user\<close> and the route is the
  handler run on that request.
\<close>

theorem protect_gate:
  "(authorization req = None \<longrightarrow>
      guarded (protect V k) h req st = (message_response 401 ''No token, authorization denied'', st))
   \<and> (bearer_token (authorization req) = None \<or> bearer_token (authorization req) = Some [] \<longrightarrow>
      guarded (protect V k) h req st = (message_response 401 ''No token, authorization denied'', st))
   \<and> (bearer_token (authorization req) = Some t \<and> t \<noteq> [] \<and> V t k = Inl e \<longrightarrow>
      guarded (protect V k) h req st = (message_response 401 ''Token is not valid'', st))
   \<and> (bearer_token (authorization req) = Some t \<and> t \<noteq> [] \<and> V t k = Inr d \<longrightarrow>
      protect V k req = Next (req\<lparr>user := Some d\<rparr>) \<and>
      guarded (protect V k) h req st = h (req\<lparr>user := Some d\<rparr>) st)"
proof (intro conjI impI)
  assume "authorization req = None"
  then have "bearer_token (authorization req) = None" by (simp add: bearer_token_absent)
  then show "guarded (protect V k) h req st = (message_response 401 ''No token, authorization denied'', st)"
    by (simp add: guarded_def protect_no_token)
next
  assume "bearer_token (authorization req) = None \<or> bearer_token (authorization req) = Some []"
  then show "guarded (protect V k) h req st = (message_response 401 ''No token, authorization denied'', st)"
    by (simp add: guarded_def protect_no_token)
next
  assume "bearer_token (authorization req) = Some t \<and> t \<noteq> [] \<and> V t k = Inl e"
  then show "guarded (protect V k) h req st = (message_response 401 ''Token is not valid'', st)"
    by (simp add: guarded_def protect_invalid)
next
  assume a: "bearer_token (authorization req) = Some t \<and> t \<noteq> [] \<and> V t k = Inr d"
  then show "protect V k req = Next (req\<lparr>user := Some d\<rparr>)"
    by (simp add: protect_valid)
  from a show "guarded (protect V k) h req st = h (req\<lparr>user := Some d\<rparr>) st"
    by (simp add: guarded_def protect_valid)
qed

lemma bearer_bad: "bearer_token (Some ''Bearer bad'') = Some ''bad''"
  by (simp add: bearer_token_def startsWith_def at_index_def)

lemma bearer_id1: "bearer_token (Some ''Bearer tok:64a1f0c2b3d4e5f601234561'') = Some ''tok:64a1f0c2b3d4e5f601234561''"
  by (simp add: bearer_token_def startsWith_def at_index_def)

lemma bearer_id9: "bearer_token (Some ''Bearer tok:64a1f0c2b3d4e5f601234569'') = Some ''tok:64a1f0c2b3d4e5f601234569''"
  by (simp add: bearer_token_def startsWith_def at_index_def)

lemma bearer_scheme_only: "bearer_token (Some ''Bearer'') = None"
  by (simp add: bearer_token_def startsWith_def at_index_def)

text \<open>
  The four cases on the sample library: no header, a header with the scheme only, a token
  the verifier rejects, and a token it accepts (the handler then runs and counts).
\<close>

theorem protect_gate_witness:
  "authorization (bearer_request None ()) = None
   \<and> guarded (protect (jwt_verify sample_lib) ''k'') counting_handler (bearer_request None ()) 0
       = (message_response 401 ''No token, authorization denied'', 0)
   \<and> bearer_token (authorization (bearer_request (Some ''Bearer'') ())) = None
   \<and> guarded (protect (jwt_verify sample_lib) ''k'') counting_handler
         (bearer_request (Some ''Bearer'') ()) 0
       = (message_response 401 ''No token, authorization denied'', 0)
   \<and> bearer_token (authorization (bearer_request (Some ''Bearer bad'') ())) = Some ''bad''
   \<and> jwt_verify sample_lib ''bad'' ''k'' = Inl (Error ''jwt malformed'')
   \<and> guarded (protect (jwt_verify sample_lib) ''k'') counting_handler
         (bearer_request (Some ''Bearer bad'') ()) 0
       = (message_response 401 ''Token is not valid'', 0)
   \<and> bearer_token (authorization (bearer_request (Some ''Bearer tok:64a1f0c2b3d4e5f601234561'') ())) = Some ''tok:64a1f0c2b3d4e5f601234561''
   \<and> jwt_verify sample_lib ''tok:64a1f0c2b3d4e5f601234561'' ''k'' = Inr \<lparr>payload_id = ''64a1f0c2b3d4e5f601234561''\<rparr>
   \<and> guarded (protect (jwt_verify sample_lib) ''k'') counting_handler
         (bearer_request (Some ''Bearer tok:64a1f0c2b3d4e5f601234561'') ()) 0
       = (message_response 200 ''ok'', 1)"
proof -
  have a: "authorization (bearer_request None ()) = None"
    by (simp add: bearer_request_def)
  have b: "bearer_token (authorization (bearer_request (Some ''Bearer'') ())) = None"
    by (simp add: bearer_request_def bearer_scheme_only)
  have c: "bearer_token (authorization (bearer_request (Some ''Bearer bad'') ())) = Some ''bad''"
    by (simp add: bearer_request_def bearer_bad)
  have c': "jwt_verify sample_lib ''bad'' ''k'' = Inl (Error ''jwt malformed'')"
    by (simp add: sample_lib_def)
  have d: "bearer_token (authorization (bearer_request (Some ''Bearer tok:64a1f0c2b3d4e5f601234561'') ())) = Some ''tok:64a1f0c2b3d4e5f601234561''"
    by (simp add: bearer_request_def bearer_id1)
  have d': "jwt_verify sample_lib ''tok:64a1f0c2b3d4e5f601234561'' ''k'' = Inr \<lparr>payload_id = ''64a1f0c2b3d4e5f601234561''\<rparr>"
    by (simp add: sample_lib_def)
  note g = protect_gate [where V = "jwt_verify sample_lib" and k = "''k''" and h = counting_handler
                           and st = "0::nat"]
  from a g [where req = "bearer_request None ()"]
  have 1: "guarded (protect (jwt_verify sample_lib) ''k'') counting_handler (bearer_request None ()) 0
       = (message_response 401 ''No token, authorization denied'', 0)" by blast
  from b g [where req = "bearer_request (Some ''Bearer'') ()"]
  have 2: "guarded (protect (jwt_verify sample_lib) ''k'') counting_handler
         (bearer_request (Some ''Bearer'') ()) 0
       = (message_response 401 ''No token, authorization denied'', 0)" by blast
  from c c' g [where req = "bearer_request (Some ''Bearer bad'') ()" and t = "''bad''"
                 and e = "Error ''jwt malformed''"]
  have 3: "guarded (protect (jwt_verify sample_lib) ''k'') counting_handler
         (bearer_request (Some ''Bearer bad'') ()) 0
       = (message_response 401 ''Token is not valid'', 0)" by simp
  from d d' g [where req = "bearer_request (Some ''Bearer tok:64a1f0c2b3d4e5f601234561'') ()" and t = "''tok:64a1f0c2b3d4e5f601234561''"
                 and d = "\<lparr>payload_id = ''64a1f0c2b3d4e5f601234561''\<rparr>"]
  have 4: "guarded (protect (jwt_verify sample_lib) ''k'') counting_handler
         (bearer_request (Some ''Bearer tok:64a1f0c2b3d4e5f601234561'') ()) 0
       = (message_response 200 ''ok'', 1)" by (simp add: counting_handler_def)
  from a b c c' d d' 1 2 3 4 show ?thesis by simp
qed

text \<open>
  The example route and the logout route, the other two routes behind the middleware,
  answer 401 when no token can be read.
\<close>

lemma protected_routes_need_token:
  assumes "bearer_token (authorization req) = None \<or> bearer_token (authorization req) = Some []"
  shows "protected_route L k req st = (message_response 401 ''No token, authorization denied'', st)"
    and "logout L k req st = (message_response 401 ''No token, authorization denied'', st)"
  using assms by (simp_all add: protected_route_def logout_def guarded_def protect_no_token)

section \<open>The profile route\<close>

lemma profile_fields_unselect: "profile_fields (unselect b u) = profile_fields u"
  by (simp add: profile_fields_def unselect_def)

lemma findById_absent:
  "castObjectId L i = Inr oid \<Longrightarrow> \<not> list_ex (\<lambda>u. uid u = oid) s \<Longrightarrow>
   findById L s (Some i) = Inr None"
  by (simp add: findById_def find_None_iff list_ex_iff)

lemma findById_found:
  "castObjectId L i = Inr oid \<Longrightarrow> find (\<lambda>u. uid u = oid) s = Some u \<Longrightarrow>
   findById L s (Some i) = Inr (Some (unselect False u))"
  by (simp add: findById_def)

lemma findById_cast_error:
  "castObjectId L i = Inl error \<Longrightarrow> findById L s (Some i) = Inl error"
  by (simp add: findById_def)

lemma profile_cast_error:
  assumes "bearer_token (authorization req) = Some t" and "t \<noteq> []"
    and "jwt_verify L t k = Inr d" and "castObjectId L (payload_id d) = Inl error"
  shows "profile L k req s = (server_error ''Server error while fetching profile'' error, s)"
proof -
  from assms(1-3) have "protect (jwt_verify L) k req = Next (req\<lparr>user := Some d\<rparr>)"
    by (rule protect_valid)
  moreover from assms(4) have "findById L s (Some (payload_id d)) = Inl error"
    by (rule findById_cast_error)
  ultimately show ?thesis
    by (simp add: profile_def guarded_def profile_handler_def)
qed

text \<open>
  C9 as stated fails for a token that verifies to an id which is no ObjectId: the query
  throws on the cast and the handler's catch answers with the generic 500, not with 404,
  although no stored document has that id.
\<close>

theorem profile_malformed_id_counterexample:
  "jwt_verify sample_lib ''tok:abc'' ''k'' = Inr \<lparr>payload_id = ''abc''\<rparr>
   \<and> ''abc'' \<notin> set (map uid [ann])
   \<and> profile sample_lib ''k'' (bearer_request (Some ''Bearer tok:abc'') ()) [ann]
       = (\<lparr>status = 500,
            body = JObj [(''message'', JStr ''Server error while fetching profile''),
                         (''error'', JStr ''Cast to ObjectId failed for value abc'')]\<rparr>, [ann])
   \<and> profile sample_lib ''k'' (bearer_request (Some ''Bearer tok:abc'') ()) [ann]
       \<noteq> (message_response 404 ''User not found'', [ann])"
  by code_simp

text \<open>
  C9, as amended. For every \<^verbatim>\<open>GET /api/user/profile\<close> request: with no token to read,
  or a token the verifier rejects, the answer is 401; with a token that verifies to an id
  that casts to an ObjectId no stored document has, the answer is 404; with a token that
  verifies to an id that casts to the ObjectId of a stored document, the answer is 200
  and its body is the full profile of that document, the twelve fields written out
  below with the values stored; with a token that verifies to an id that does not cast
  to an ObjectId, the answer is the generic 500 with the message of the cast error. The
  collection is unchanged in every case.
\<close>

theorem profile_responses:
  "(bearer_token (authorization req) = None \<or> bearer_token (authorization req) = Some [] \<longrightarrow>
      profile L k req s = (message_response 401 ''No token, authorization denied'', s))
   \<and> (bearer_token (authorization req) = Some t \<and> t \<noteq> [] \<and> jwt_verify L t k = Inl e \<longrightarrow>
      profile L k req s = (message_response 401 ''Token is not valid'', s))
   \<and> (bearer_token (authorization req) = Some t \<and> t \<noteq> [] \<and> jwt_verify L t k = Inr d \<and>
       castObjectId L (payload_id d) = Inr oid \<and> \<not> list_ex (\<lambda>u. uid u = oid) s \<longrightarrow>
      profile L k req s = (message_response 404 ''User not found'', s))
   \<and> (bearer_token (authorization req) = Some t \<and> t \<noteq> [] \<and> jwt_verify L t k = Inr d \<and>
       castObjectId L (payload_id d) = Inr oid \<and> find (\<lambda>u. uid u = oid) s = Some u \<longrightarrow>
      profile L k req s =
        (\<lparr>status = 200,
          body = JObj [(''id'', JStr (uid u)),
                       (''email'', JStr (email u)),
                       (''firstName'', JStr (firstName u)),
                       (''lastName'', JStr (lastName u)),
                       (''age'', (case age u of None \<Rightarrow> JUndefined | Some n \<Rightarrow> JNum n)),
                       (''school'', (case school u of None \<Rightarrow> JUndefined | Some x \<Rightarrow> JStr x)),
                       (''grade'', (case grade u of None \<Rightarrow> JUndefined | Some x \<Rightarrow> JStr x)),
                       (''interests'', interests u),
                       (''achievements'', achievements u),
                       (''academicProgress'', academicProgress u),
                       (''universityApplications'', universityApplications u),
                       (''applicationProgress'', applicationProgress u)]\<rparr>, s))
   \<and> (bearer_token (authorization req) = Some t \<and> t \<noteq> [] \<and> jwt_verify L t k = Inr d \<and>
       castObjectId L (payload_id d) = Inl ce \<longrightarrow>
      profile L k req s =
        (\<lparr>status = 500,
          body = JObj [(''message'', JStr ''Server error while fetching profile''),
                       (''error'', JStr (err_message ce))]\<rparr>, s))"
proof (intro conjI impI)
  assume "bearer_token (authorization req) = None \<or> bearer_token (authorization req) = Some []"
  then show "profile L k req s = (message_response 401 ''No token, authorization denied'', s)"
    by (simp add: profile_def guarded_def protect_no_token)
next
  assume "bearer_token (authorization req) = Some t \<and> t \<noteq> [] \<and> jwt_verify L t k = Inl e"
  then show "profile L k req s = (message_response 401 ''Token is not valid'', s)"
    by (simp add: profile_def guarded_def protect_invalid)
next
  assume a: "bearer_token (authorization req) = Some t \<and> t \<noteq> [] \<and> jwt_verify L t k = Inr d \<and>
       castObjectId L (payload_id d) = Inr oid \<and> \<not> list_ex (\<lambda>u. uid u = oid) s"
  then have "protect (jwt_verify L) k req = Next (req\<lparr>user := Some d\<rparr>)"
    by (simp add: protect_valid)
  moreover from a have "findById L s (Some (payload_id d)) = Inr None"
    by (simp add: findById_absent)
  ultimately show "profile L k req s = (message_response 404 ''User not found'', s)"
    by (simp add: profile_def guarded_def profile_handler_def)
next
  assume a: "bearer_token (authorization req) = Some t \<and> t \<noteq> [] \<and> jwt_verify L t k = Inr d \<and>
       castObjectId L (payload_id d) = Inr oid \<and> find (\<lambda>u. uid u = oid) s = Some u"
  then have "protect (jwt_verify L) k req = Next (req\<lparr>user := Some d\<rparr>)"
    by (simp add: protect_valid)
  moreover from a have "findById L s (Some (payload_id d)) = Inr (Some (unselect False u))"
    by (simp add: findById_found)
  ultimately have "profile L k req s = (\<lparr>status = 200, body = JObj (profile_fields u)\<rparr>, s)"
    by (simp add: profile_def guarded_def profile_handler_def profile_fields_unselect)
  then show "profile L k req s =
        (\<lparr>status = 200,
          body = JObj [(''id'', JStr (uid u)),
                       (''email'', JStr (email u)),
                       (''firstName'', JStr (firstName u)),
                       (''lastName'', JStr (lastName u)),
                       (''age'', (case age u of None \<Rightarrow> JUndefined | Some n \<Rightarrow> JNum n)),
                       (''school'', (case school u of None \<Rightarrow> JUndefined | Some x \<Rightarrow> JStr x)),
                       (''grade'', (case grade u of None \<Rightarrow> JUndefined | Some x \<Rightarrow> JStr x)),
                       (''interests'', interests u),
                       (''achievements'', achievements u),
                       (''academicProgress'', academicProgress u),
                       (''universityApplications'', universityApplications u),
                       (''applicationProgress'', applicationProgress u)]\<rparr>, s)"
    by (simp add: profile_fields_def opt_num_def opt_str_def)
next
  assume a: "bearer_token (authorization req) = Some t \<and> t \<noteq> [] \<and> jwt_verify L t k = Inr d \<and>
       castObjectId L (payload_id d) = Inl ce"
  then have "profile L k req s = (server_error ''Server error while fetching profile'' ce, s)"
    by (simp add: profile_cast_error)
  then show "profile L k req s =
        (\<lparr>status = 500,
          body = JObj [(''message'', JStr ''Server error while fetching profile''),
                       (''error'', JStr (err_message ce))]\<rparr>, s)"
    by (simp add: server_error_def)
qed

lemma sample_verify_id1:
  "jwt_verify sample_lib ''tok:64a1f0c2b3d4e5f601234561'' ''k''
     = Inr \<lparr>payload_id = ''64a1f0c2b3d4e5f601234561''\<rparr>"
  by (simp add: sample_lib_def)

lemma sample_verify_id9:
  "jwt_verify sample_lib ''tok:64a1f0c2b3d4e5f601234569'' ''k''
     = Inr \<lparr>payload_id = ''64a1f0c2b3d4e5f601234569''\<rparr>"
  by (simp add: sample_lib_def)

lemma sample_verify_abc: "jwt_verify sample_lib ''tok:abc'' ''k'' = Inr \<lparr>payload_id = ''abc''\<rparr>"
  by (simp add: sample_lib_def)

lemma sample_verify_bad: "jwt_verify sample_lib ''bad'' ''k'' = Inl (Error ''jwt malformed'')"
  by (simp add: sample_lib_def)

lemma sample_cast:
  "castObjectId sample_lib ''64a1f0c2b3d4e5f601234561'' = Inr ''64a1f0c2b3d4e5f601234561''"
  "castObjectId sample_lib ''64a1f0c2b3d4e5f601234569'' = Inr ''64a1f0c2b3d4e5f601234569''"
  "castObjectId sample_lib ''abc'' = Inl (Error ''Cast to ObjectId failed for value abc'')"
  by code_simp+

lemma bearer_abc: "bearer_token (Some ''Bearer tok:abc'') = Some ''tok:abc''"
  by (simp add: bearer_token_def startsWith_def at_index_def)

lemma authorization_bearer_request: "authorization (bearer_request h b) = h"
  by (simp add: bearer_request_def)

text \<open>
  The five answers on the sample library and a collection that holds the account of
  ann: no header, a token the verifier rejects, the id of no account, the id of ann, and
  an id that is no ObjectId.
\<close>

theorem profile_responses_witness:
  "bearer_token (authorization (bearer_request None ())) = None
   \<and> profile sample_lib ''k'' (bearer_request None ()) [ann]
       = (message_response 401 ''No token, authorization denied'', [ann])
   \<and> profile sample_lib ''k'' (bearer_request (Some ''Bearer bad'') ()) [ann]
       = (message_response 401 ''Token is not valid'', [ann])
   \<and> castObjectId sample_lib ''64a1f0c2b3d4e5f601234569'' = Inr ''64a1f0c2b3d4e5f601234569''
   \<and> \<not> list_ex (\<lambda>u. uid u = ''64a1f0c2b3d4e5f601234569'') [ann]
   \<and> profile sample_lib ''k'' (bearer_request (Some ''Bearer tok:64a1f0c2b3d4e5f601234569'') ()) [ann]
       = (message_response 404 ''User not found'', [ann])
   \<and> find (\<lambda>u. uid u = ''64a1f0c2b3d4e5f601234561'') [ann] = Some ann
   \<and> profile sample_lib ''k'' (bearer_request (Some ''Bearer tok:64a1f0c2b3d4e5f601234561'') ()) [ann]
       = (\<lparr>status = 200,
            body = JObj [(''id'', JStr ''64a1f0c2b3d4e5f601234561''),
                         (''email'', JStr ''ann@x.com''),
                         (''firstName'', JStr ''Ann''),
                         (''lastName'', JStr ''Lee''),
                         (''age'', JNum 17),
                         (''school'', JUndefined),
                         (''grade'', JUndefined),
                         (''interests'', JArr []),
                         (''achievements'', JArr []),
                         (''academicProgress'', JArr []),
                         (''universityApplications'', JArr []),
                         (''applicationProgress'', JObj [(''averageCompletion'', JNum 0)])]\<rparr>,
          [ann])
   \<and> profile sample_lib ''k'' (bearer_request (Some ''Bearer tok:abc'') ()) [ann]
       = (\<lparr>status = 500,
            body = JObj [(''message'', JStr ''Server error while fetching profile''),
                         (''error'', JStr ''Cast to ObjectId failed for value abc'')]\<rparr>, [ann])"
proof -
  note p = profile_responses [where L = sample_lib and k = "''k''" and s = "[ann]"]
  have a: "bearer_token (authorization (bearer_request None ())) = None"
    by (simp add: authorization_bearer_request bearer_token_absent)
  have n: "\<not> list_ex (\<lambda>u. uid u = ''64a1f0c2b3d4e5f601234569'') [ann]"
    by (simp add: ann_def)
  have f: "find (\<lambda>u. uid u = ''64a1f0c2b3d4e5f601234561'') [ann] = Some ann"
    by (simp add: ann_def)
  from a p [where req = "bearer_request None ()"]
  have 1: "profile sample_lib ''k'' (bearer_request None ()) [ann]
       = (message_response 401 ''No token, authorization denied'', [ann])" by blast
  from p [where req = "bearer_request (Some ''Bearer bad'') ()" and t = "''bad''"
            and e = "Error ''jwt malformed''"]
  have 2: "profile sample_lib ''k'' (bearer_request (Some ''Bearer bad'') ()) [ann]
       = (message_response 401 ''Token is not valid'', [ann])"
    by (simp add: authorization_bearer_request bearer_bad sample_verify_bad)
  from n p [where req = "bearer_request (Some ''Bearer tok:64a1f0c2b3d4e5f601234569'') ()"
            and t = "''tok:64a1f0c2b3d4e5f601234569''"
            and d = "\<lparr>payload_id = ''64a1f0c2b3d4e5f601234569''\<rparr>"
            and oid = "''64a1f0c2b3d4e5f601234569''"]
  have 3: "profile sample_lib ''k'' (bearer_request (Some ''Bearer tok:64a1f0c2b3d4e5f601234569'') ()) [ann]
       = (message_response 404 ''User not found'', [ann])"
    by (simp add: authorization_bearer_request bearer_id9 sample_verify_id9 sample_cast)
  from f p [where req = "bearer_request (Some ''Bearer tok:64a1f0c2b3d4e5f601234561'') ()"
            and t = "''tok:64a1f0c2b3d4e5f601234561''"
            and d = "\<lparr>payload_id = ''64a1f0c2b3d4e5f601234561''\<rparr>" and u = ann
            and oid = "''64a1f0c2b3d4e5f601234561''"]
  have 4: "profile sample_lib ''k'' (bearer_request (Some ''Bearer tok:64a1f0c2b3d4e5f601234561'') ()) [ann]
       = (\<lparr>status = 200,
            body = JObj [(''id'', JStr ''64a1f0c2b3d4e5f601234561''),
                         (''email'', JStr ''ann@x.com''),
                         (''firstName'', JStr ''Ann''),
                         (''lastName'', JStr ''Lee''),
                         (''age'', JNum 17),
                         (''school'', JUndefined),
                         (''grade'', JUndefined),
                         (''interests'', JArr []),
                         (''achievements'', JArr []),
                         (''academicProgress'', JArr []),
                         (''universityApplications'', JArr []),
                         (''applicationProgress'', JObj [(''averageCompletion'', JNum 0)])]\<rparr>,
          [ann])"
    by (simp add: authorization_bearer_request bearer_id1 sample_verify_id1 sample_cast)
       (simp add: ann_def)
  from p [where req = "bearer_request (Some ''Bearer tok:abc'') ()" and t = "''tok:abc''"
            and d = "\<lparr>payload_id = ''abc''\<rparr>"
            and ce = "Error ''Cast to ObjectId failed for value abc''"]
  have 5: "profile sample_lib ''k'' (bearer_request (Some ''Bearer tok:abc'') ()) [ann]
       = (\<lparr>status = 500,
            body = JObj [(''message'', JStr ''Server error while fetching profile''),
                         (''error'', JStr ''Cast to ObjectId failed for value abc'')]\<rparr>, [ann])"
    by (simp add: authorization_bearer_request bearer_abc sample_verify_abc sample_cast Error_def)
  from a n f 1 2 3 4 5 sample_cast(2) show ?thesis by simp
qed

section \<open>The chat route validates the message first\<close>

lemma chat_handler_falsy:
  "\<not> truthy (message (req_body req)) \<Longrightarrow> chat_handler fetch req sent = (missing_message, sent)"
  by (simp add: chat_handler_def)

lemma chat_handler_not_string:
  "truthy (message (req_body req)) \<Longrightarrow> \<not> is_string (message (req_body req)) \<Longrightarrow>
   chat_handler fetch req sent = (invalid_message_format, sent)"
  by (simp add: chat_handler_def)

text \<open>
  C10 as stated fails where the message is present, not a string and falsy: the number
  0 is answered with \<^verbatim>\<open>MISSING_MESSAGE\<close>, not with \<^verbatim>\<open>INVALID_MESSAGE_FORMAT\<close>.
\<close>

theorem chat_present_not_string_counterexample:
  "message (req_body (bearer_request (Some ''Bearer tok:64a1f0c2b3d4e5f601234561'') \<lparr>message = JNum 0\<rparr>)) = JNum 0
   \<and> fst (chat sample_lib ''k'' sample_fetch
             (bearer_request (Some ''Bearer tok:64a1f0c2b3d4e5f601234561'') \<lparr>message = JNum 0\<rparr>) []) = missing_message
   \<and> fst (chat sample_lib ''k'' sample_fetch
             (bearer_request (Some ''Bearer tok:64a1f0c2b3d4e5f601234561'') \<lparr>message = JNum 0\<rparr>) []) \<noteq> invalid_message_format"
proof -
  have "protect (jwt_verify sample_lib) ''k'' (bearer_request (Some ''Bearer tok:64a1f0c2b3d4e5f601234561'') \<lparr>message = JNum 0\<rparr>)
        = Next ((bearer_request (Some ''Bearer tok:64a1f0c2b3d4e5f601234561'') \<lparr>message = JNum 0\<rparr>)\<lparr>user := Some \<lparr>payload_id = ''64a1f0c2b3d4e5f601234561''\<rparr>\<rparr>)"
    by (rule protect_valid [where t = "''tok:64a1f0c2b3d4e5f601234561''"])
       (simp_all add: authorization_bearer_request bearer_id1 sample_verify_id1)
  then have "chat sample_lib ''k'' sample_fetch
               (bearer_request (Some ''Bearer tok:64a1f0c2b3d4e5f601234561'') \<lparr>message = JNum 0\<rparr>) [] = (missing_message, [])"
    by (simp add: chat_def guarded_def chat_handler_falsy bearer_request_def)
  then show ?thesis
    by (simp add: bearer_request_def missing_message_def invalid_message_format_def)
qed

text \<open>
  C10, as amended. For every authenticated \<^verbatim>\<open>POST /api/ai/chat\<close> request: if the
  message is absent or the empty string, or falsy in any other way (\<^verbatim>\<open>null\<close>,
  \<^verbatim>\<open>false\<close>, \<^verbatim>\<open>0\<close>), the answer is 400 with the error kind
  \<^verbatim>\<open>MISSING_MESSAGE\<close>; if the message is truthy and not a string, the answer is 400
  with the error kind \<^verbatim>\<open>INVALID_MESSAGE_FORMAT\<close>. In both cases the answer does not
  depend on \<open>fetch\<close> and the list of prompts sent is unchanged: the inference service
  has not been called.
\<close>

theorem chat_validation:
  assumes "bearer_token (authorization req) = Some t" and "t \<noteq> []" and "jwt_verify L t k = Inr d"
  shows "(message (req_body req) = JUndefined \<or> message (req_body req) = JStr [] \<longrightarrow>
            chat L k fetch req sent = (missing_message, sent))
         \<and> (\<not> truthy (message (req_body req)) \<longrightarrow>
            chat L k fetch req sent = (missing_message, sent))
         \<and> (truthy (message (req_body req)) \<and> \<not> is_string (message (req_body req)) \<longrightarrow>
            chat L k fetch req sent = (invalid_message_format, sent))"
proof -
  from assms have p: "protect (jwt_verify L) k req = Next (req\<lparr>user := Some d\<rparr>)"
    by (rule protect_valid)
  have c: "chat L k fetch req sent = chat_handler fetch (req\<lparr>user := Some d\<rparr>) sent"
    by (simp add: chat_def guarded_def p)
  show ?thesis
  proof (intro conjI impI)
    assume "message (req_body req) = JUndefined \<or> message (req_body req) = JStr []"
    then have "\<not> truthy (message (req_body (req\<lparr>user := Some d\<rparr>)))" by auto
    then show "chat L k fetch req sent = (missing_message, sent)"
      unfolding c by (rule chat_handler_falsy)
  next
    assume "\<not> truthy (message (req_body req))"
    then have "\<not> truthy (message (req_body (req\<lparr>user := Some d\<rparr>)))" by simp
    then show "chat L k fetch req sent = (missing_message, sent)"
      unfolding c by (rule chat_handler_falsy)
  next
    assume "truthy (message (req_body req)) \<and> \<not> is_string (message (req_body req))"
    then have "truthy (message (req_body (req\<lparr>user := Some d\<rparr>)))"
      and "\<not> is_string (message (req_body (req\<lparr>user := Some d\<rparr>)))" by simp_all
    then show "chat L k fetch req sent = (invalid_message_format, sent)"
      unfolding c by (rule chat_handler_not_string)
  qed
qed

text \<open>An empty string, an absent message and an array, sent with a token that verifies.\<close>

theorem chat_validation_witness:
  "bearer_token (authorization (bearer_request (Some ''Bearer tok:64a1f0c2b3d4e5f601234561'') \<lparr>message = JStr []\<rparr>))
     = Some ''tok:64a1f0c2b3d4e5f601234561''
   \<and> jwt_verify sample_lib ''tok:64a1f0c2b3d4e5f601234561'' ''k'' = Inr \<lparr>payload_id = ''64a1f0c2b3d4e5f601234561''\<rparr>
   \<and> chat sample_lib ''k'' sample_fetch
        (bearer_request (Some ''Bearer tok:64a1f0c2b3d4e5f601234561'') \<lparr>message = JStr []\<rparr>) [] = (missing_message, [])
   \<and> chat sample_lib ''k'' sample_fetch
        (bearer_request (Some ''Bearer tok:64a1f0c2b3d4e5f601234561'') \<lparr>message = JUndefined\<rparr>) [] = (missing_message, [])
   \<and> truthy (JArr [JStr ''hi'']) \<and> \<not> is_string (JArr [JStr ''hi''])
   \<and> chat sample_lib ''k'' sample_fetch
        (bearer_request (Some ''Bearer tok:64a1f0c2b3d4e5f601234561'') \<lparr>message = JArr [JStr ''hi'']\<rparr>) []
       = (invalid_message_format, [])"
proof -
  have b: "\<And>m. bearer_token (authorization (bearer_request (Some ''Bearer tok:64a1f0c2b3d4e5f601234561'') m))
             = Some ''tok:64a1f0c2b3d4e5f601234561''"
    by (simp add: authorization_bearer_request bearer_id1)
  have m: "\<And>v. message (req_body (bearer_request (Some ''Bearer tok:64a1f0c2b3d4e5f601234561'') \<lparr>message = v\<rparr>)) = v"
    by (simp add: bearer_request_def)
  note c = chat_validation [where L = sample_lib and k = "''k''" and t = "''tok:64a1f0c2b3d4e5f601234561''"
                              and d = "\<lparr>payload_id = ''64a1f0c2b3d4e5f601234561''\<rparr>" and fetch = sample_fetch
                              and sent = "[]"]
  have 1: "chat sample_lib ''k'' sample_fetch
        (bearer_request (Some ''Bearer tok:64a1f0c2b3d4e5f601234561'') \<lparr>message = JStr []\<rparr>) [] = (missing_message, [])"
    using c [where req = "bearer_request (Some ''Bearer tok:64a1f0c2b3d4e5f601234561'') \<lparr>message = JStr []\<rparr>"]
    by (simp add: m b sample_verify_id1)
  have 2: "chat sample_lib ''k'' sample_fetch
        (bearer_request (Some ''Bearer tok:64a1f0c2b3d4e5f601234561'') \<lparr>message = JUndefined\<rparr>) [] = (missing_message, [])"
    using c [where req = "bearer_request (Some ''Bearer tok:64a1f0c2b3d4e5f601234561'') \<lparr>message = JUndefined\<rparr>"]
    by (simp add: m b sample_verify_id1)
  have 3: "chat sample_lib ''k'' sample_fetch
        (bearer_request (Some ''Bearer tok:64a1f0c2b3d4e5f601234561'') \<lparr>message = JArr [JStr ''hi'']\<rparr>) []
       = (invalid_message_format, [])"
    using c [where req = "bearer_request (Some ''Bearer tok:64a1f0c2b3d4e5f601234561'') \<lparr>message = JArr [JStr ''hi'']\<rparr>"]
    by (simp add: m b sample_verify_id1)
  from b sample_verify_id1 1 2 3 show ?thesis by simp
qed

text \<open>With a string that is not empty the service is called, once.\<close>

lemma chat_calls_service:
  assumes "bearer_token (authorization req) = Some t" and "t \<noteq> []" and "jwt_verify L t k = Inr d"
    and "message (req_body req) = JStr m" and "m \<noteq> []"
  shows "snd (chat L k fetch req sent) = sent @ [build_prompt m]"
proof -
  from assms(1-3) have p: "protect (jwt_verify L) k req = Next (req\<lparr>user := Some d\<rparr>)"
    by (rule protect_valid)
  show ?thesis
    using assms(4,5)
    by (simp add: chat_def guarded_def p chat_handler_def getAIResponse_def Let_def
             split: fetch_result.split sum.split prod.split)
qed

section \<open>Startup configuration\<close>

text \<open>
  C7 as stated fails for the signing secret: with the connection string supplied and no
  \<^verbatim>\<open>JWT_SECRET\<close>, the process serves, with the fallback secret of line 14.
\<close>

theorem startup_fallback_secret_counterexample:
  "sample_env ''JWT_SECRET'' = None
   \<and> startup sample_env True =
       Serving \<lparr>PORT = JNum 5000, JWT_SECRET = ''supersecretjwtkey'',
                mongoURI = ''mongodb://localhost/astra''\<rparr>"
  by (simp add: startup_def sample_env_def present_def str_val_def)

text \<open>
  C7, as amended. If the store connection string is not supplied (\<^verbatim>\<open>MONGO_URI\<close> is
  absent or empty), or the connection fails, the process exits with code 1 at startup,
  so a serving process always holds the connection string it was given. If the signing
  secret is not supplied (\<^verbatim>\<open>JWT_SECRET\<close> is absent or empty) the process does not
  fail: it serves with the fallback secret \<^verbatim>\<open>supersecretjwtkey\<close>; a supplied secret
  is the one used.
\<close>

theorem startup_configuration:
  "(\<not> present (env ''MONGO_URI'') \<longrightarrow> startup env connected = Exit 1)
   \<and> (\<not> connected \<longrightarrow> startup env connected = Exit 1)
   \<and> (present (env ''MONGO_URI'') \<and> connected \<and> \<not> present (env ''JWT_SECRET'') \<longrightarrow>
        (\<exists>cfg. startup env connected = Serving cfg \<and> JWT_SECRET cfg = ''supersecretjwtkey''))
   \<and> (present (env ''MONGO_URI'') \<and> connected \<and> present (env ''JWT_SECRET'') \<longrightarrow>
        (\<exists>cfg. startup env connected = Serving cfg \<and> env ''JWT_SECRET'' = Some (JWT_SECRET cfg)))
   \<and> (startup env connected = Serving cfg \<longrightarrow>
        env ''MONGO_URI'' = Some (mongoURI cfg) \<and> mongoURI cfg \<noteq> [] \<and> JWT_SECRET cfg \<noteq> [])"
proof (intro conjI impI)
  assume "\<not> present (env ''MONGO_URI'')"
  then show "startup env connected = Exit 1"
    by (simp add: startup_def)
next
  assume "\<not> connected"
  then show "startup env connected = Exit 1"
    by (simp add: startup_def)
next
  assume "present (env ''MONGO_URI'') \<and> connected \<and> \<not> present (env ''JWT_SECRET'')"
  then show "\<exists>cfg. startup env connected = Serving cfg \<and> JWT_SECRET cfg = ''supersecretjwtkey''"
    by (simp add: startup_def)
next
  assume "present (env ''MONGO_URI'') \<and> connected \<and> present (env ''JWT_SECRET'')"
  then show "\<exists>cfg. startup env connected = Serving cfg \<and> env ''JWT_SECRET'' = Some (JWT_SECRET cfg)"
    by (auto simp: startup_def present_def str_val_def split: option.splits)
next
  assume a: "startup env connected = Serving cfg"
  then show "env ''MONGO_URI'' = Some (mongoURI cfg)"
    by (auto simp: startup_def present_def str_val_def Let_def split: option.splits if_splits)
  from a show "mongoURI cfg \<noteq> []"
    by (auto simp: startup_def present_def str_val_def Let_def split: option.splits if_splits)
  from a show "JWT_SECRET cfg \<noteq> []"
    by (auto simp: startup_def present_def str_val_def Let_def split: option.splits if_splits)
qed

text \<open>
  Three environments: an empty one, one with the connection string only, and one with
  both variables.
\<close>

theorem startup_configuration_witness:
  "\<not> present (empty_env ''MONGO_URI'') \<and> startup empty_env True = Exit 1
   \<and> startup sample_env False = Exit 1
   \<and> present (sample_env ''MONGO_URI'') \<and> \<not> present (sample_env ''JWT_SECRET'')
   \<and> (\<exists>cfg. startup sample_env True = Serving cfg \<and> JWT_SECRET cfg = ''supersecretjwtkey'')
   \<and> present (full_env ''MONGO_URI'') \<and> present (full_env ''JWT_SECRET'')
   \<and> (\<exists>cfg. startup full_env True = Serving cfg \<and> full_env ''JWT_SECRET'' = Some (JWT_SECRET cfg)
          \<and> full_env ''MONGO_URI'' = Some (mongoURI cfg))"
proof -
  have e: "\<not> present (empty_env ''MONGO_URI'')"
    by (simp add: empty_env_def present_def)
  have m: "present (sample_env ''MONGO_URI'')"
    by (simp add: sample_env_def present_def)
  have j: "\<not> present (sample_env ''JWT_SECRET'')"
    by (simp add: sample_env_def present_def)
  have fm: "present (full_env ''MONGO_URI'')"
    by (simp add: full_env_def present_def)
  have fj: "present (full_env ''JWT_SECRET'')"
    by (simp add: full_env_def present_def)
  from e startup_configuration [where env = empty_env and connected = True]
  have 1: "startup empty_env True = Exit 1" by blast
  from startup_configuration [where env = sample_env and connected = False]
  have 2: "startup sample_env False = Exit 1" by blast
  from m j startup_configuration [where env = sample_env and connected = True]
  have 3: "\<exists>cfg. startup sample_env True = Serving cfg \<and> JWT_SECRET cfg = ''supersecretjwtkey''"
    by blast
  from fm fj startup_configuration [where env = full_env and connected = True]
  obtain cfg where c: "startup full_env True = Serving cfg"
    and s: "full_env ''JWT_SECRET'' = Some (JWT_SECRET cfg)" by blast
  from c startup_configuration [where env = full_env and connected = True and cfg = cfg]
  have "full_env ''MONGO_URI'' = Some (mongoURI cfg)" by blast
  with c s have 4: "\<exists>cfg. startup full_env True = Serving cfg
      \<and> full_env ''JWT_SECRET'' = Some (JWT_SECRET cfg) \<and> full_env ''MONGO_URI'' = Some (mongoURI cfg)"
    by blast
  from e m j fm fj 1 2 3 4 show ?thesis by blast
qed

section \<open>The one-hour expiry\<close>

text \<open>
  C5. Every token is issued with an expiry one hour after the issue time \<open>T\<close>: it is
  accepted by verification at \<open>T\<close> plus 59 minutes, with the account id it was issued
  for, and rejected as expired at \<open>T\<close> plus 61 minutes.
\<close>

theorem token_expiry_boundary:
  "expiresAt (claims (issue mac secret T a)) = T + 60 * 60
   \<and> verify mac secret (T + 59 * 60) (Wellformed (issue mac secret T a)) = Inr a
   \<and> verify mac secret (T + 61 * 60) (Wellformed (issue mac secret T a)) = Inl Expired"
  by (simp add: issue_def verify_def one_hour_def Let_def)

text \<open>A token issued at second 1000 for the sample account.\<close>

theorem token_expiry_boundary_witness:
  "verify sample_mac ''k'' (1000 + 59 * 60) (Wellformed (issue sample_mac ''k'' 1000 ''64a1f0c2b3d4e5f601234561'')) = Inr ''64a1f0c2b3d4e5f601234561''
   \<and> verify sample_mac ''k'' (1000 + 61 * 60) (Wellformed (issue sample_mac ''k'' 1000 ''64a1f0c2b3d4e5f601234561''))
       = Inl Expired"
  using token_expiry_boundary [where mac = sample_mac and secret = "''k''" and T = 1000
                                 and a = "''64a1f0c2b3d4e5f601234561''"]
  by simp

lemma token_valid_iff_before_expiry:
  "verify mac secret now (Wellformed (issue mac secret T a)) = Inr a \<longleftrightarrow> now < T + 60 * 60"
  by (simp add: issue_def verify_def one_hour_def Let_def)

lemma token_other_secret:
  "mac secret' \<lparr>accountId = a, issuedAt = T, expiresAt = T + one_hour\<rparr>
     \<noteq> mac secret \<lparr>accountId = a, issuedAt = T, expiresAt = T + one_hour\<rparr> \<Longrightarrow>
   verify mac secret' now (Wellformed (issue mac secret T a)) = Inl SignatureInvalid"
  by (simp add: issue_def verify_def Let_def)

section \<open>Login failures\<close>

lemma findOne_absent: "\<not> list_ex (\<lambda>u. email u = email_setters e) s \<Longrightarrow> findOne s e b = None"
  by (simp add: findOne_def find_None_iff list_ex_iff)

lemma findOne_found:
  "find (\<lambda>u. email u = email_setters e) s = Some u \<Longrightarrow> findOne s e b = Some (unselect b u)"
  by (simp add: findOne_def)

lemma comparePassword_selected: "comparePassword L (unselect True u) p = comparePassword L u p"
  by (simp add: comparePassword_def unselect_def)

lemma comparePassword_no_hash: "password u = None \<Longrightarrow> comparePassword L u p = Inr False"
  by (simp add: comparePassword_def)

lemma comparePassword_delegates:
  "password u = Some h \<Longrightarrow> h \<noteq> [] \<Longrightarrow> comparePassword L u p = bcrypt_compare L p h"
  by (simp add: comparePassword_def)

lemma login_no_account:
  assumes "present (login_email (req_body req))" and "truthy (login_password (req_body req))"
    and "\<not> list_ex (\<lambda>u. email u = email_setters (str_val (login_email (req_body req)))) s"
  shows "login L k req s = (message_response 400 ''Invalid credentials'', s)"
  using assms by (simp add: login_def Let_def findOne_absent)

lemma login_wrong_password:
  assumes "present (login_email (req_body req))" and "truthy (login_password (req_body req))"
    and "find (\<lambda>u. email u = email_setters (str_val (login_email (req_body req)))) s = Some u"
    and "comparePassword L u (login_password (req_body req)) = Inr False"
  shows "login L k req s = (message_response 400 ''Invalid credentials'', s)"
  using assms by (simp add: login_def Let_def findOne_found comparePassword_selected)

text \<open>
  When the password check throws, the catch block of the handler answers: an existing
  account gets the generic 500 with the message of the error.
\<close>

lemma login_check_throws:
  assumes "present (login_email (req_body req))" and "truthy (login_password (req_body req))"
    and "find (\<lambda>u. email u = email_setters (str_val (login_email (req_body req)))) s = Some u"
    and "comparePassword L u (login_password (req_body req)) = Inl error"
  shows "login L k req s = (server_error ''Server error during login'' error, s)"
  using assms by (simp add: login_def Let_def findOne_found comparePassword_selected)

text \<open>
  Where the password check answers false, the two failures of a login get the same
  response: the one for an email no account has and the one for a wrong password.
\<close>

lemma login_failures_same_response:
  assumes "present (login_email (req_body r1))" and "truthy (login_password (req_body r1))"
    and "present (login_email (req_body r2))" and "truthy (login_password (req_body r2))"
    and "\<not> list_ex (\<lambda>u. email u = email_setters (str_val (login_email (req_body r1)))) s1"
    and "find (\<lambda>u. email u = email_setters (str_val (login_email (req_body r2)))) s2 = Some u"
    and "comparePassword L u (login_password (req_body r2)) = Inr False"
  shows "login L k r1 s1 = (message_response 400 ''Invalid credentials'', s1)
         \<and> login L k r2 s2 = (message_response 400 ''Invalid credentials'', s2)
         \<and> fst (login L k r1 s1) = fst (login L k r2 s2)"
proof -
  from assms(1,2,5) have 1: "login L k r1 s1 = (message_response 400 ''Invalid credentials'', s1)"
    by (rule login_no_account)
  from assms(3,4,6,7) have 2: "login L k r2 s2 = (message_response 400 ''Invalid credentials'', s2)"
    by (rule login_wrong_password)
  from 1 2 show ?thesis by simp
qed

lemma auth_request_fields:
  "req_email (req_body (auth_request e p f l)) = e"
  "req_password (req_body (auth_request e p f l)) = p"
  "req_firstName (req_body (auth_request e p f l)) = f"
  "req_lastName (req_body (auth_request e p f l)) = l"
  "req_age (req_body (auth_request e p f l)) = None"
  "req_school (req_body (auth_request e p f l)) = None"
  "req_grade (req_body (auth_request e p f l)) = None"
  by (simp_all add: auth_request_def)

lemma email_setters_Ann: "email_setters ''Ann@X.com'' = ''ann@x.com''"
  by code_simp

lemma email_setters_bob: "email_setters ''bob@x.com'' = ''bob@x.com''"
  by code_simp

lemma sample_login_wrong_string:
  "login sample_lib ''k'' (login_request (Some ''ann@x.com'') (JStr ''wrong'')) [ann]
     = (message_response 400 ''Invalid credentials'', [ann])"
  by code_simp

text \<open>
  C1 does not hold on the code. The handler answers the two failures of a login with
  the same 400 \<^verbatim>\<open>Invalid credentials\<close> only where \<^verbatim>\<open>bcrypt.compare\<close> answers false.
  A password that is present and not a string, the number 12345, is handed to
  \<^verbatim>\<open>bcrypt.compare\<close> as it is: for the email of a stored account the comparison
  refuses it and the catch block answers 500 with the message of the error, while for
  an email no account has the answer is the 400. The two responses differ, so the
  response tells whether the account exists.
\<close>

theorem login_nonstring_password_distinguishes:
  "present (Some ''ann@x.com'') \<and> present (Some ''bob@x.com'') \<and> truthy (JNum 12345)
   \<and> map email [ann] = [''ann@x.com'']
   \<and> login sample_lib ''k'' (login_request (Some ''bob@x.com'') (JNum 12345)) [ann]
       = (\<lparr>status = 400, body = JObj [(''message'', JStr ''Invalid credentials'')]\<rparr>, [ann])
   \<and> login sample_lib ''k'' (login_request (Some ''ann@x.com'') (JNum 12345)) [ann]
       = (\<lparr>status = 500,
            body = JObj [(''message'', JStr ''Server error during login''),
                         (''error'', JStr ''Illegal arguments: number, string'')]\<rparr>, [ann])
   \<and> fst (login sample_lib ''k'' (login_request (Some ''bob@x.com'') (JNum 12345)) [ann])
       \<noteq> fst (login sample_lib ''k'' (login_request (Some ''ann@x.com'') (JNum 12345)) [ann])"
  by code_simp

text \<open>The status codes of the two responses: 400 for the unknown email, 500 for ann.\<close>

theorem login_nonstring_password_statuses:
  "status (fst (login sample_lib ''k'' (login_request (Some ''bob@x.com'') (JNum 12345)) [ann])) = 400
   \<and> status (fst (login sample_lib ''k'' (login_request (Some ''ann@x.com'') (JNum 12345)) [ann])) = 500"
  using login_nonstring_password_distinguishes by simp

section \<open>What signup stores and what the responses show\<close>

lemma save_result:
  "save L s u = Inr (u', s') \<Longrightarrow>
   validate u = [] \<and> pre_save L (password u \<noteq> None) u = Inr u' \<and> insert_doc s u' = Inr s'"
  by (auto simp: save_def split: list.splits sum.splits)

lemma insert_doc_result: "insert_doc s u = Inr s' \<Longrightarrow> s' = s @ [u]"
  by (auto simp: insert_doc_def split: if_splits)

lemma pre_save_hashes:
  "pre_save L True u = Inr u' \<Longrightarrow> password u = Some p \<Longrightarrow> p \<noteq> [] \<Longrightarrow>
   \<exists>h. bcrypt_hash L p (bcrypt_genSalt L 10) = Inr h \<and> u' = u\<lparr>password := Some h\<rparr>"
  by (auto simp: pre_save_def Let_def split: sum.splits)

lemma new_User_password: "password (new_User oid e p f l a sc g) = Some p"
  by (simp add: new_User_def)

lemma signup_cases:
  assumes "signup L k req s = (r, s')"
  shows "(s' = s \<and> status r \<noteq> 201)
         \<or> (\<exists>u h. s' = s @ [u\<lparr>password := Some h\<rparr>]
              \<and> u = new_User (new_ObjectId L) (str_val (req_email (req_body req)))
                      (str_val (req_password (req_body req)))
                      (str_val (req_firstName (req_body req)))
                      (str_val (req_lastName (req_body req)))
                      (parse_age (req_age (req_body req)))
                      (req_school (req_body req)) (req_grade (req_body req))
              \<and> bcrypt_hash L (str_val (req_password (req_body req))) (bcrypt_genSalt L 10) = Inr h
              \<and> r = \<lparr>status = 201,
                      body = JObj [(''message'', JStr ''User registered successfully''),
                                   (''token'', JStr (jwt_sign L (uid u) k ''1h'')),
                                   (''user'', signup_view u)]\<rparr>)"
proof (cases "required_fields (req_body req)")
  case False
  with assms show ?thesis
    by (auto simp: signup_def required_fields_def Let_def message_response_def)
next
  case req: True
  show ?thesis
  proof (cases "findOne s (str_val (req_email (req_body req))) False")
    case (Some existing)
    with assms req show ?thesis
      by (auto simp: signup_def required_fields_def Let_def message_response_def)
  next
    case None
    define u where "u = new_User (new_ObjectId L) (str_val (req_email (req_body req)))
                      (str_val (req_password (req_body req)))
                      (str_val (req_firstName (req_body req)))
                      (str_val (req_lastName (req_body req)))
                      (parse_age (req_age (req_body req)))
                      (req_school (req_body req)) (req_grade (req_body req))"
    show ?thesis
    proof (cases "save L s u")
      case (Inl error)
      with assms req None show ?thesis
        by (auto simp: signup_def required_fields_def Let_def message_response_def
                       server_error_def u_def split: if_splits)
    next
      case (Inr res)
      obtain u' s'' where res: "res = (u', s'')" by (cases res)
      from assms req None Inr res
      have r: "r = \<lparr>status = 201,
                      body = JObj [(''message'', JStr ''User registered successfully''),
                                   (''token'', JStr (jwt_sign L (uid u') k ''1h'')),
                                   (''user'', signup_view u')]\<rparr>" and s': "s' = s''"
        by (auto simp: signup_def required_fields_def Let_def u_def)
      from Inr res have sv: "validate u = []"
        "pre_save L (password u \<noteq> None) u = Inr u'" "insert_doc s u' = Inr s''"
        using save_result by blast+
      have pw: "password u = Some (str_val (req_password (req_body req)))"
        by (simp add: u_def new_User_password)
      from req have ne: "str_val (req_password (req_body req)) \<noteq> []"
        by (auto simp: required_fields_def present_def str_val_def split: option.splits)
      from sv(2) pw have "pre_save L True u = Inr u'" by simp
      from pre_save_hashes [OF this pw ne]
      obtain h where h: "bcrypt_hash L (str_val (req_password (req_body req))) (bcrypt_genSalt L 10) = Inr h"
        and u': "u' = u\<lparr>password := Some h\<rparr>" by blast
      from sv(3) have "s'' = s @ [u']" by (rule insert_doc_result)
      with r s' h u' have "s' = s @ [u\<lparr>password := Some h\<rparr>] \<and>
          bcrypt_hash L (str_val (req_password (req_body req))) (bcrypt_genSalt L 10) = Inr h \<and>
          r = \<lparr>status = 201,
                      body = JObj [(''message'', JStr ''User registered successfully''),
                                   (''token'', JStr (jwt_sign L (uid u) k ''1h'')),
                                   (''user'', signup_view u)]\<rparr>"
        by (simp add: signup_view_def)
      then show ?thesis unfolding u_def by blast
    qed
  qed
qed


lemma sample_signup_bob:
  "signup sample_lib ''k'' (auth_request (Some ''bob@x.com'') (Some ''secret1'') (Some ''Bob'') (Some ''Ray'')) [ann]
   = (\<lparr>status = 201,
        body = JObj [(''message'', JStr ''User registered successfully''),
                     (''token'', JStr ''tok:64a1f0c2b3d4e5f601234562''),
                     (''user'', signup_view bob)]\<rparr>, [ann, bob])"
  by code_simp

lemma sample_login_ann:
  "login sample_lib ''k'' (login_request (Some ''Ann@X.com'') (JStr ''secret1'')) [ann]
   = (\<lparr>status = 200,
        body = JObj [(''message'', JStr ''Logged in successfully''),
                     (''token'', JStr ''tok:64a1f0c2b3d4e5f601234561''),
                     (''user'', JObj (profile_fields ann))]\<rparr>, [ann])"
  by code_simp

text \<open>
  C8. Whatever a signup request is, the collection afterwards is the collection before,
  or the collection before with one document added whose \<^verbatim>\<open>password\<close> is what
  \<^verbatim>\<open>bcrypt.hash\<close> returned for the request's password and the salt of
  \<^verbatim>\<open>bcrypt.genSalt(10)\<close>: what the store is handed as the password is the hasher's
  output for it.
\<close>

theorem signup_stores_hash:
  assumes "signup L k req s = (r, s')"
  shows "s' = s \<or>
         (\<exists>u h. s' = s @ [u]
            \<and> bcrypt_hash L (str_val (req_password (req_body req))) (bcrypt_genSalt L 10) = Inr h
            \<and> password u = Some h)"
proof -
  from signup_cases [OF assms] show ?thesis
  proof
    assume "s' = s \<and> status r \<noteq> 201"
    then show ?thesis by simp
  next
    assume "\<exists>u h. s' = s @ [u\<lparr>password := Some h\<rparr>]
              \<and> u = new_User (new_ObjectId L) (str_val (req_email (req_body req)))
                      (str_val (req_password (req_body req)))
                      (str_val (req_firstName (req_body req)))
                      (str_val (req_lastName (req_body req)))
                      (parse_age (req_age (req_body req)))
                      (req_school (req_body req)) (req_grade (req_body req))
              \<and> bcrypt_hash L (str_val (req_password (req_body req))) (bcrypt_genSalt L 10) = Inr h
              \<and> r = \<lparr>status = 201,
                      body = JObj [(''message'', JStr ''User registered successfully''),
                                   (''token'', JStr (jwt_sign L (uid u) k ''1h'')),
                                   (''user'', signup_view u)]\<rparr>"
    then obtain u h where "s' = s @ [u\<lparr>password := Some h\<rparr>]"
      and "bcrypt_hash L (str_val (req_password (req_body req))) (bcrypt_genSalt L 10) = Inr h"
      by blast
    moreover have "password (u\<lparr>password := Some h\<rparr>) = Some h" by simp
    ultimately show ?thesis by blast
  qed
qed

text \<open>
  The signup of bob with the password \<^verbatim>\<open>secret1\<close>: the document stored holds the
  stand-in hash.
\<close>

theorem signup_stores_hash_witness:
  "signup sample_lib ''k''
     (auth_request (Some ''bob@x.com'') (Some ''secret1'') (Some ''Bob'') (Some ''Ray'')) [ann]
     = (\<lparr>status = 201,
          body = JObj [(''message'', JStr ''User registered successfully''),
                       (''token'', JStr ''tok:64a1f0c2b3d4e5f601234562''),
                       (''user'', signup_view bob)]\<rparr>, [ann, bob])
   \<and> (\<exists>u h. [ann, bob] = [ann] @ [u]
         \<and> bcrypt_hash sample_lib ''secret1'' (bcrypt_genSalt sample_lib 10) = Inr h
         \<and> password u = Some h)
   \<and> password bob = Some ''salt$1terces''"
proof -
  have "[ann, bob] \<noteq> [ann]" by simp
  with signup_stores_hash [OF sample_signup_bob]
  have "\<exists>u h. [ann, bob] = [ann] @ [u]
         \<and> bcrypt_hash sample_lib ''secret1'' (bcrypt_genSalt sample_lib 10) = Inr h
         \<and> password u = Some h"
    by (simp add: auth_request_fields str_val_def)
  moreover have "password bob = Some ''salt$1terces''" by (simp add: bob_def)
  ultimately show ?thesis using sample_signup_bob by blast
qed

section \<open>The user object of a response\<close>

lemma signup_view_keys:
  "object_keys (signup_view u) =
     [''id'', ''email'', ''firstName'', ''lastName'', ''age'', ''school'', ''grade'']"
  by (simp add: signup_view_def object_keys_def)

lemma profile_fields_keys:
  "map fst (profile_fields u) =
     [''id'', ''email'', ''firstName'', ''lastName'', ''age'', ''school'', ''grade'',
      ''interests'', ''achievements'', ''academicProgress'', ''universityApplications'',
      ''applicationProgress'']"
  by (simp add: profile_fields_def)

lemma views_ignore_password:
  "signup_view (u\<lparr>password := p\<rparr>) = signup_view u"
  "profile_fields (u\<lparr>password := p\<rparr>) = profile_fields u"
  by (simp_all add: signup_view_def profile_fields_def)

lemma user_field:
  "field (JObj [(''message'', m), (''token'', t), (''user'', v)]) ''user'' = v"
  by (simp add: field_def)

lemma signup_view_without_password:
  "is_object (signup_view u) \<and> ''password'' \<notin> set (object_keys (signup_view u))"
  by (simp add: signup_view_keys) (simp add: signup_view_def is_object_def)

lemma profile_object_without_password:
  "is_object (JObj (profile_fields u)) \<and> ''password'' \<notin> set (object_keys (JObj (profile_fields u)))"
  by (simp add: object_keys_def is_object_def profile_fields_keys)

lemma signup_created:
  assumes "signup L k req s = (r, s')" and "status r = 201"
  shows "\<exists>m t u. body r = JObj [(''message'', m), (''token'', t), (''user'', signup_view u)]"
  using signup_cases [OF assms(1)] assms(2) by auto

lemma login_ok:
  assumes "login L k req s = (r, s')" and "status r = 200"
  shows "\<exists>m t u. body r = JObj [(''message'', m), (''token'', t), (''user'', JObj (profile_fields u))]"
  using assms
  by (auto simp: login_def Let_def message_response_def server_error_def
           split: if_splits option.splits sum.splits)

lemma profile_ok:
  assumes "profile L k req s = (r, s')" and "status r = 200"
  shows "\<exists>u. body r = JObj (profile_fields u)"
  using assms
  by (auto simp: profile_def guarded_def protect_def profile_handler_def message_response_def
                 server_error_def
           split: if_splits option.splits sum.splits mw_result.splits)

text \<open>
  C2. In the response of a successful signup (201) and of a successful login (200) the
  value under \<^verbatim>\<open>user\<close> is an object with no \<^verbatim>\<open>password\<close> key, and so is the body of
  a successful profile fetch (200): no call site puts the hashed secret into the user
  object it returns.
\<close>

theorem responses_exclude_password:
  "(signup L k req s = (r, s') \<and> status r = 201 \<longrightarrow>
      is_object (field (body r) ''user'') \<and>
      ''password'' \<notin> set (object_keys (field (body r) ''user'')))
   \<and> (login L k lreq s = (r, s') \<and> status r = 200 \<longrightarrow>
      is_object (field (body r) ''user'') \<and>
      ''password'' \<notin> set (object_keys (field (body r) ''user'')))
   \<and> (profile L k preq s = (r, s') \<and> status r = 200 \<longrightarrow>
      is_object (body r) \<and> ''password'' \<notin> set (object_keys (body r)))"
proof (intro conjI impI)
  assume a: "signup L k req s = (r, s') \<and> status r = 201"
  then obtain m t u where "body r = JObj [(''message'', m), (''token'', t), (''user'', signup_view u)]"
    using signup_created by blast
  then have f: "field (body r) ''user'' = signup_view u" by (simp add: user_field)
  show "is_object (field (body r) ''user'')"
    unfolding f using signup_view_without_password by blast
  show "''password'' \<notin> set (object_keys (field (body r) ''user''))"
    unfolding f using signup_view_without_password by blast
next
  assume a: "login L k lreq s = (r, s') \<and> status r = 200"
  then obtain m t u
    where "body r = JObj [(''message'', m), (''token'', t), (''user'', JObj (profile_fields u))]"
    using login_ok by blast
  then have f: "field (body r) ''user'' = JObj (profile_fields u)" by (simp add: user_field)
  show "is_object (field (body r) ''user'')"
    unfolding f using profile_object_without_password by blast
  show "''password'' \<notin> set (object_keys (field (body r) ''user''))"
    unfolding f using profile_object_without_password by blast
next
  assume a: "profile L k preq s = (r, s') \<and> status r = 200"
  then obtain u where f: "body r = JObj (profile_fields u)"
    using profile_ok by blast
  show "is_object (body r)"
    unfolding f using profile_object_without_password by blast
  show "''password'' \<notin> set (object_keys (body r))"
    unfolding f using profile_object_without_password by blast
qed

lemma sample_profile_ann:
  "profile sample_lib ''k'' (bearer_request (Some ''Bearer tok:64a1f0c2b3d4e5f601234561'') ()) [ann]
     = (\<lparr>status = 200, body = JObj (profile_fields ann)\<rparr>, [ann])"
  by code_simp

text \<open>The signup of bob, the login of ann and the profile of ann on the sample library.\<close>

theorem responses_exclude_password_witness:
  "signup sample_lib ''k''
     (auth_request (Some ''bob@x.com'') (Some ''secret1'') (Some ''Bob'') (Some ''Ray'')) [ann]
     = (\<lparr>status = 201,
          body = JObj [(''message'', JStr ''User registered successfully''),
                       (''token'', JStr ''tok:64a1f0c2b3d4e5f601234562''),
                       (''user'', signup_view bob)]\<rparr>, [ann, bob])
   \<and> ''password'' \<notin> set (object_keys (signup_view bob))
   \<and> login sample_lib ''k'' (login_request (Some ''Ann@X.com'') (JStr ''secret1'')) [ann]
     = (\<lparr>status = 200,
          body = JObj [(''message'', JStr ''Logged in successfully''),
                       (''token'', JStr ''tok:64a1f0c2b3d4e5f601234561''),
                       (''user'', JObj (profile_fields ann))]\<rparr>, [ann])
   \<and> profile sample_lib ''k'' (bearer_request (Some ''Bearer tok:64a1f0c2b3d4e5f601234561'') ()) [ann]
     = (\<lparr>status = 200, body = JObj (profile_fields ann)\<rparr>, [ann])
   \<and> ''password'' \<notin> set (object_keys (JObj (profile_fields ann)))"
proof -
  from sample_signup_bob
    responses_exclude_password
      [where L = sample_lib and k = "''k''" and s = "[ann]" and s' = "[ann, bob]"
         and req = "auth_request (Some ''bob@x.com'') (Some ''secret1'') (Some ''Bob'') (Some ''Ray'')"
         and preq = "bearer_request None ()"
         and lreq = "login_request None JUndefined"
         and r = "\<lparr>status = 201,
          body = JObj [(''message'', JStr ''User registered successfully''),
                       (''token'', JStr ''tok:64a1f0c2b3d4e5f601234562''),
                       (''user'', signup_view bob)]\<rparr>"]
  have 1: "''password'' \<notin> set (object_keys (signup_view bob))"
    by (simp add: user_field)
  from sample_profile_ann
    responses_exclude_password
      [where L = sample_lib and k = "''k''" and s = "[ann]" and s' = "[ann]"
         and preq = "bearer_request (Some ''Bearer tok:64a1f0c2b3d4e5f601234561'') ()"
         and req = "auth_request None None None None"
         and lreq = "login_request None JUndefined"
         and r = "\<lparr>status = 200, body = JObj (profile_fields ann)\<rparr>"]
  have 2: "''password'' \<notin> set (object_keys (JObj (profile_fields ann)))"
    by simp
  from sample_login_ann
    responses_exclude_password
      [where L = sample_lib and k = "''k''" and s = "[ann]" and s' = "[ann]"
         and lreq = "login_request (Some ''Ann@X.com'') (JStr ''secret1'')"
         and req = "auth_request None None None None"
         and preq = "bearer_request None ()"
         and r = "\<lparr>status = 200,
          body = JObj [(''message'', JStr ''Logged in successfully''),
                       (''token'', JStr ''tok:64a1f0c2b3d4e5f601234561''),
                       (''user'', JObj (profile_fields ann))]\<rparr>"]
  have 3: "''password'' \<notin> set (object_keys (JObj (profile_fields ann)))"
    by (simp add: user_field)
  from 1 2 3 sample_signup_bob sample_login_ann sample_profile_ann show ?thesis by blast
qed

section \<open>Signup with an email that is taken\<close>

lemma taken_is_found:
  assumes "normalised s" and "email_taken s e"
  shows "\<exists>u. find (\<lambda>u. email u = email_setters e) s = Some u"
proof -
  from assms(2) obtain v where v: "v \<in> set s" and l: "toLowerCase (email v) = toLowerCase e"
    by (auto simp: email_taken_def list_ex_iff)
  from assms(1) v have "email v = email_setters (email v)"
    by (auto simp: normalised_def list_all_iff)
  with l have "email v = email_setters e"
    by (simp add: email_setters_def)
  with v have "\<exists>x. x \<in> set s \<and> email x = email_setters e" by blast
  then have "find (\<lambda>u. email u = email_setters e) s \<noteq> None"
    by (simp add: find_None_iff)
  then show ?thesis by blast
qed

text \<open>
  C6 as stated fails for a signup that lacks a required field: the check of the
  required fields comes first, so with the email of ann and no first name the answer is
  \<^verbatim>\<open>Please enter all required fields\<close>, not one of the two duplicate-email answers.
\<close>

theorem signup_missing_field_counterexample:
  "email_taken [ann] ''Ann@X.com''
   \<and> signup sample_lib ''k''
        (auth_request (Some ''Ann@X.com'') (Some ''secret1'') None (Some ''Lee'')) [ann]
       = (message_response 400 ''Please enter all required fields'', [ann])
   \<and> message_response 400 ''Please enter all required fields''
       \<noteq> message_response 400 ''User with this email already exists''
   \<and> message_response 400 ''Please enter all required fields''
       \<noteq> message_response 400 ''Email already registered''"
  by code_simp

text \<open>
  C6, as amended. For every signup with the four required fields present whose email,
  compared without regard to case, is the email of a stored account, in a collection
  whose emails are normalised: the answer is 400 with the message
  \<^verbatim>\<open>User with this email already exists\<close>, not the generic 500, and the collection
  is unchanged, so no second account is created.
\<close>

theorem signup_duplicate_email:
  assumes "normalised s" and "required_fields (req_body req)"
    and "email_taken s (str_val (req_email (req_body req)))"
  shows "signup L k req s = (message_response 400 ''User with this email already exists'', s)"
proof -
  from taken_is_found [OF assms(1,3)]
  obtain u where "find (\<lambda>u. email u = email_setters (str_val (req_email (req_body req)))) s = Some u"
    by blast
  then have "findOne s (str_val (req_email (req_body req))) False = Some (unselect False u)"
    by (rule findOne_found)
  with assms(2) show ?thesis
    by (simp add: signup_def required_fields_def Let_def)
qed

text \<open>A second signup with the email of ann, in other letter case, and all fields present.\<close>

theorem signup_duplicate_email_witness:
  "normalised [ann]
   \<and> required_fields (req_body (auth_request (Some ''Ann@X.com'') (Some ''other12'') (Some ''Anna'') (Some ''Lee'')))
   \<and> email_taken [ann] ''Ann@X.com''
   \<and> signup sample_lib ''k''
        (auth_request (Some ''Ann@X.com'') (Some ''other12'') (Some ''Anna'') (Some ''Lee'')) [ann]
       = (message_response 400 ''User with this email already exists'', [ann])"
proof -
  have n: "normalised [ann]" by code_simp
  have r: "required_fields (req_body (auth_request (Some ''Ann@X.com'') (Some ''other12'') (Some ''Anna'') (Some ''Lee'')))"
    by (simp add: required_fields_def auth_request_fields present_def)
  have t: "email_taken [ann] (str_val (req_email (req_body
             (auth_request (Some ''Ann@X.com'') (Some ''other12'') (Some ''Anna'') (Some ''Lee'')))))"
    by code_simp
  have t': "email_taken [ann] ''Ann@X.com''" by code_simp
  from signup_duplicate_email [OF n r t, where L = sample_lib and k = "''k''"] n r t'
  show ?thesis by blast
qed

subsection \<open>Stored emails stay normalised\<close>

lemma lower_char_idem: "lower_char (lower_char c) = lower_char c"
  by (simp add: lower_char_def Let_def)


lemma is_space_lower: "is_space (lower_char c) = is_space c"
  by (auto simp: lower_char_def is_space_def Let_def)

lemma toLowerCase_idem: "toLowerCase (toLowerCase s) = toLowerCase s"
  by (simp add: toLowerCase_def lower_char_idem)

lemma dropWhile_space_lower:
  "dropWhile is_space (toLowerCase s) = toLowerCase (dropWhile is_space s)"
  by (induction s) (simp_all add: toLowerCase_def is_space_lower)

lemma trim_lower: "trim (toLowerCase s) = toLowerCase (trim s)"
proof -
  have r: "\<And>xs. rev (toLowerCase xs) = toLowerCase (rev xs)"
    by (simp add: toLowerCase_def rev_map)
  show ?thesis
    by (simp add: trim_def dropWhile_space_lower r)
qed

lemma dropWhile_fixed: "xs = [] \<or> \<not> P (hd xs) \<Longrightarrow> dropWhile P xs = xs"
  by (cases xs) auto

lemma trim_idem: "trim (trim s) = trim s"
proof -
  define ys where "ys = dropWhile is_space s"
  define zs where "zs = dropWhile is_space (rev ys)"
  have t: "trim s = rev zs" by (simp add: trim_def ys_def zs_def)
  have "rev ys = takeWhile is_space (rev ys) @ zs" by (simp add: zs_def)
  then have "rev (rev ys) = rev (takeWhile is_space (rev ys) @ zs)" by simp
  then have ys: "ys = rev zs @ rev (takeWhile is_space (rev ys))" by simp
  have head: "rev zs = [] \<or> \<not> is_space (hd (rev zs))"
  proof (cases "rev zs = []")
    case True
    then show ?thesis by simp
  next
    case False
    with ys have "hd ys = hd (rev zs)" and "ys \<noteq> []"
      by (metis hd_append2, metis append_is_Nil_conv)
    moreover from \<open>ys \<noteq> []\<close> have "\<not> is_space (hd ys)"
      unfolding ys_def by (rule hd_dropWhile)
    ultimately show ?thesis by simp
  qed
  then have 1: "dropWhile is_space (rev zs) = rev zs" by (rule dropWhile_fixed)
  have 2: "dropWhile is_space zs = zs" by (simp add: zs_def)
  have "trim (rev zs) = rev zs" by (simp add: trim_def 1 2)
  with t show ?thesis by simp
qed

lemma email_setters_idem: "email_setters (email_setters e) = email_setters e"
  by (simp add: email_setters_def trim_lower toLowerCase_idem trim_idem)

lemma normalised_append:
  "normalised s \<Longrightarrow> email u = email_setters (email u) \<Longrightarrow> normalised (s @ [u])"
  by (simp add: normalised_def)

lemma signup_preserves_normalised:
  assumes "normalised s" and "signup L k req s = (r, s')"
  shows "normalised s'"
proof -
  from signup_cases [OF assms(2)] show ?thesis
  proof
    assume "s' = s \<and> status r \<noteq> 201"
    with assms(1) show ?thesis by simp
  next
    assume "\<exists>u h. s' = s @ [u\<lparr>password := Some h\<rparr>]
              \<and> u = new_User (new_ObjectId L) (str_val (req_email (req_body req)))
                      (str_val (req_password (req_body req)))
                      (str_val (req_firstName (req_body req)))
                      (str_val (req_lastName (req_body req)))
                      (parse_age (req_age (req_body req)))
                      (req_school (req_body req)) (req_grade (req_body req))
              \<and> bcrypt_hash L (str_val (req_password (req_body req))) (bcrypt_genSalt L 10) = Inr h
              \<and> r = \<lparr>status = 201,
                      body = JObj [(''message'', JStr ''User registered successfully''),
                                   (''token'', JStr (jwt_sign L (uid u) k ''1h'')),
                                   (''user'', signup_view u)]\<rparr>"
    then obtain u h where s': "s' = s @ [u\<lparr>password := Some h\<rparr>]"
      and u: "u = new_User (new_ObjectId L) (str_val (req_email (req_body req)))
                      (str_val (req_password (req_body req)))
                      (str_val (req_firstName (req_body req)))
                      (str_val (req_lastName (req_body req)))
                      (parse_age (req_age (req_body req)))
                      (req_school (req_body req)) (req_grade (req_body req))"
      by blast
    from u have "email (u\<lparr>password := Some h\<rparr>) = email_setters (email (u\<lparr>password := Some h\<rparr>))"
      by (simp add: new_User_def email_setters_idem)
    with assms(1) s' show ?thesis by (simp add: normalised_append)
  qed
qed

lemma normalised_empty: "normalised []"
  by (simp add: normalised_def)

lemma login_keeps_store: "snd (login L k req s) = s"
  by (simp add: login_def Let_def split: option.split sum.split)

end
